theory Spec2Isabelle
  imports Main "HOL-Library.Sublist" "HOL-Library.AList"
begin

section \<open>Strings, paths and errors\<close>

text \<open>
  JavaScript strings are modelled as \<open>string\<close>. \<open>s.endsWith(t)\<close> and
  \<open>s.includes(t)\<close> are the suffix and the contiguous-substring test.
\<close>

type_synonym path = string
type_synonym bytes = string

definition endsWith :: "string \<Rightarrow> string \<Rightarrow> bool" where
  "endsWith s t = suffix t s"

fun str_includes :: "string \<Rightarrow> string \<Rightarrow> bool" where
  "str_includes [] t = (t = [])"
| "str_includes (c # cs) t = (prefix t (c # cs) \<or> str_includes cs t)"

text \<open>Everything the modelled code can throw or reject with.\<close>

datatype error =
    ReleaseIndexError   \<comment> \<open>the release index request failed\<close>
  | DownloadError       \<comment> \<open>\<open>downloadFile\<close> of the build pipeline threw\<close>
  | ExtractError        \<comment> \<open>\<open>extract7zip\<close> rejected\<close>
  | InvalidArgType      \<comment> \<open>\<open>path.join\<close> given a non-string (TypeError)\<close>
  | ENOENT              \<comment> \<open>\<open>readFileSync\<close> or \<open>move\<close> on a missing file\<close>
  | EISDIR              \<comment> \<open>\<open>readFileSync\<close> on a directory\<close>
  | DestExists          \<comment> \<open>\<open>fs.move\<close> onto an existing destination\<close>
  | EEXIST              \<comment> \<open>\<open>ensureDirSync\<close> on the path of a regular file\<close>
  | ENOTDIR             \<comment> \<open>\<open>ensureDirSync\<close> below the path of a regular file\<close>
  | EACCES              \<comment> \<open>\<open>ensureDirSync\<close> without the permission to create the directory\<close>
  | SignError           \<comment> \<open>the signing callback threw\<close>
  | NetworkError nat    \<comment> \<open>\<open>new Error(`Network error ${statusCode}`)\<close>\<close>
  | ConnectionError     \<comment> \<open>the request's \<open>error\<close> event\<close>
  | StreamError         \<comment> \<open>the response's or the file's \<open>error\<close> event\<close>
  | InvalidURL          \<comment> \<open>\<open>new URL\<close> or \<open>startsWith\<close> on a bad argument (TypeError)\<close>

section \<open>HistoryResolver: \<open>getPreviousReleases\<close>\<close>

text \<open>
  The release index answers with a list of releases, each with a tag name and assets; the
  code reads only \<open>browser_download_url\<close> of an asset, so an asset is its URL. The request
  itself (\<open>axios.get\<close>) either throws or yields that list.
\<close>

record gh_release =
  tag_name :: string
  assets :: "string list"

record release =
  version :: string
  url :: string

definition getPreviousReleases ::
  "error + gh_release list \<Rightarrow> string \<Rightarrow> string \<Rightarrow> error + release list" where
  "getPreviousReleases response platform target =
    (case response of
      Inl e \<Rightarrow> Inl e
    | Inr data \<Rightarrow>
        (let ext = (if platform = ''win''
                    then (if target = ''nsis-web'' then ''.7z'' else ''.exe'')
                    else ''.zip'');
             prevReleases =
               foldl (\<lambda>arr rel.
                   arr @ map (\<lambda>u. \<lparr>version = tag_name rel, url = u\<rparr>)
                     (filter (\<lambda>u. \<not> endsWith u ''-delta.exe'' \<and> \<not> str_includes u ''-Setup'')
                       (filter (\<lambda>d. endsWith d ext)
                         (filter (\<lambda>d. \<not> str_includes d ''untagged'') (assets rel)))))
                 [] data
         in Inr (take 3 prevReleases)))"

text \<open>The release list of the scenario of the specification, with concrete asset URLs.\<close>

definition scenario_releases :: "gh_release list" where
  "scenario_releases =
    [\<lparr>tag_name = ''1.0.0'', assets = [''https://host/dl/1.0.0/App-1.0.0.exe'']\<rparr>,
     \<lparr>tag_name = ''1.1.0'', assets = [''https://host/dl/1.1.0/App-1.1.0.exe'']\<rparr>,
     \<lparr>tag_name = ''1.1.0'', assets = [''https://host/dl/1.1.0/App-1.1.0-Setup.exe'']\<rparr>,
     \<lparr>tag_name = ''1.2.0'', assets = [''https://host/dl/1.2.0/App-1.2.0-delta.exe'']\<rparr>]"

section \<open>The build pipeline: file store, JSON and external tools\<close>

text \<open>
  The disk is a finite store of regular files, kept in the order of creation. Directories
  are implicit: a directory exists when a file lies beneath it, and \<open>emptyDir\<close> removes
  every file beneath the directory. The two counters record how many artifact downloads
  and how many archive extractions the pipeline has completed.
\<close>

record world =
  files :: "(path \<times> bytes) list"
  downloads :: nat
  extractions :: nat

definition readFile :: "world \<Rightarrow> path \<Rightarrow> bytes option" where
  "readFile w p = map_of (files w) p"

definition existsSync :: "world \<Rightarrow> path \<Rightarrow> bool" where
  "existsSync w p = list_ex (\<lambda>(q, c). q = p \<or> prefix (p @ ''/'') q) (files w)"

definition writeFile :: "path \<Rightarrow> bytes \<Rightarrow> world \<Rightarrow> world" where
  "writeFile p b w = w\<lparr>files := AList.update p b (files w)\<rparr>"

definition putFile :: "path \<Rightarrow> bytes option \<Rightarrow> world \<Rightarrow> world" where
  "putFile p c w =
    (case c of
      None \<Rightarrow> w\<lparr>files := AList.delete p (files w)\<rparr>
    | Some b \<Rightarrow> writeFile p b w)"

definition emptyDir :: "path \<Rightarrow> world \<Rightarrow> world" where
  "emptyDir d w = w\<lparr>files := filter (\<lambda>(q, c). \<not> prefix (d @ ''/'') q) (files w)\<rparr>"

definition readdirSync :: "world \<Rightarrow> path \<Rightarrow> string list" where
  "readdirSync w d =
    remdups (map (\<lambda>(q, c). takeWhile (\<lambda>ch. ch \<noteq> CHR ''/'') (drop (length d + 1) q))
      (filter (\<lambda>(q, c). prefix (d @ ''/'') q) (files w)))"

text \<open>
  \<open>path.join\<close> on path segments that are already normalised (no \<open>.\<close>, \<open>..\<close> or doubled
  separators; \<open>./data\<close> is written \<open>data\<close>), and \<open>path.basename\<close>. Paths are absolute, so
  \<open>path.resolve\<close> is the identity.
\<close>

definition path_join :: "path \<Rightarrow> string \<Rightarrow> path" where
  "path_join d n = d @ ''/'' @ n"

definition basename :: "path \<Rightarrow> string" where
  "basename p =
    rev (takeWhile (\<lambda>ch. ch \<noteq> CHR ''/'') (dropWhile (\<lambda>ch. ch = CHR ''/'') (rev p)))"

definition fileNameFromUrl :: "string \<Rightarrow> string" where
  "fileNameFromUrl u = basename u"

text \<open>
  JSON values. A JavaScript object is an association list in insertion order; assigning
  to a property is \<open>AList.update\<close> (the keys written here are version strings and field
  names, never array indices, so insertion order is enumeration order).
\<close>

datatype json =
    JNull
  | JBool bool
  | JNum int
  | JStr string
  | JArr "json list"
  | JObj "(string \<times> json) list"

fun decimal :: "nat \<Rightarrow> string" where
  "decimal n =
    (if n < 10 then [char_of (n + 48)] else decimal (n div 10) @ [char_of (n mod 10 + 48)])"

declare decimal.simps [simp del]

text \<open>
  The own enumerable properties that an object spread \<open>{...x}\<close> copies: none for
  \<open>undefined\<close>, \<open>null\<close>, booleans and numbers, the indexed characters of a string, the
  indexed elements of an array, the fields of an object.
\<close>

definition spread :: "json option \<Rightarrow> (string \<times> json) list" where
  "spread x =
    (case x of
      None \<Rightarrow> []
    | Some (JObj fs) \<Rightarrow> fs
    | Some (JStr s) \<Rightarrow> map (\<lambda>(i, c). (decimal i, JStr [c])) (zip [0..<length s] s)
    | Some (JArr xs) \<Rightarrow> map (\<lambda>(i, v). (decimal i, v)) (zip [0..<length xs] xs)
    | Some _ \<Rightarrow> [])"

text \<open>
  The external collaborators of the pipeline, as functions. \<open>mkdirp\<close> is the answer of
  the operating system to the creation of a directory that no file of the store stands
  in the way of: \<open>None\<close> when the directory is there afterwards, an error such as
  \<open>EACCES\<close> otherwise. \<open>semverClean\<close> yields \<open>None\<close>
  for \<open>null\<close>. \<open>httpGet\<close> is the body served for a URL (\<open>None\<close>: the request fails).
  \<open>unpack7z\<close> lists the entries of an archive (\<open>None\<close>: the extractor reports an error).
  \<open>hdiffz\<close> is the diff tool run through \<open>spawnSync\<close> on the current store: either the
  call throws, or the process ends with an exit status, having written a patch or not.
  \<open>makensis\<close> is the installer compiler reached through \<open>DeltaInstallerBuilder.build\<close>:
  whether the build reports success, and the installer it wrote, if any. Each tool writes
  only the output file it is given.
\<close>

datatype spawn_result = SpawnThrew | Exited nat "bytes option"

record nsis_defines =
  PRODUCT_NAME :: string
  PROCESS_NAME :: string
  INSTALLER_OUTPUT_PATH :: path
  DELTA_FILE_PATH :: path
  DELTA_FILE_NAME :: string
  PRODUCT_ICON_PATH :: path

record tools =
  mkdirp :: "path \<Rightarrow> error option"
  semverClean :: "string \<Rightarrow> string option"
  httpGet :: "string \<Rightarrow> bytes option"
  unpack7z :: "bytes \<Rightarrow> (path \<times> bytes) list option"
  hdiffz :: "(path \<times> bytes) list \<Rightarrow> path \<Rightarrow> path \<Rightarrow> path \<Rightarrow> spawn_result"
  makensis :: "(path \<times> bytes) list \<Rightarrow> nsis_defines \<Rightarrow> bool \<times> bytes option"
  sha256 :: "bytes \<Rightarrow> string"
  JSON_stringify :: "(string \<times> json) list \<Rightarrow> bytes"

subsection \<open>\<open>utils.ts\<close> and \<open>create-delta\<close>\<close>

text \<open>
  \<open>fs.ensureDirSync\<close> (and \<open>fs.ensureDir\<close>) creates a directory and its missing
  ancestors. It throws \<open>EEXIST\<close> when a regular file lies at the path, \<open>ENOTDIR\<close> when
  one lies at an ancestor of the path, and what the operating system answers otherwise.
  Directories being implicit, a call that succeeds leaves the store as it is.
\<close>

definition ensureDir :: "tools \<Rightarrow> path \<Rightarrow> world \<Rightarrow> error + world" where
  "ensureDir T d w =
    (case readFile w d of
      Some c \<Rightarrow> Inl EEXIST
    | None \<Rightarrow>
        if list_ex (\<lambda>(q, c). prefix (q @ ''/'') d) (files w) then Inl ENOTDIR
        else (case mkdirp T d of Some e \<Rightarrow> Inl e | None \<Rightarrow> Inr w))"

definition utils_downloadFile :: "tools \<Rightarrow> string \<Rightarrow> path \<Rightarrow> world \<Rightarrow> error + world" where
  "utils_downloadFile T u filePath w =
    (case httpGet T u of
      None \<Rightarrow> Inl DownloadError
    | Some b \<Rightarrow> Inr (writeFile filePath b (w\<lparr>downloads := Suc (downloads w)\<rparr>)))"

definition downloadFileIfNotExists ::
  "tools \<Rightarrow> string \<Rightarrow> path \<Rightarrow> world \<Rightarrow> error + world" where
  "downloadFileIfNotExists T u filePath w =
    (if existsSync w filePath then Inr w else utils_downloadFile T u filePath w)"

definition extract7zip :: "tools \<Rightarrow> path \<Rightarrow> path \<Rightarrow> world \<Rightarrow> error + world" where
  "extract7zip T zipPath extractedDir w =
    (case readFile w zipPath of
      None \<Rightarrow> Inl ExtractError
    | Some z \<Rightarrow>
        (case unpack7z T z of
          None \<Rightarrow> Inl ExtractError
        | Some entries \<Rightarrow>
            Inr (fold (\<lambda>(n, c). writeFile (path_join extractedDir n) c) entries
                   (w\<lparr>extractions := Suc (extractions w)\<rparr>))))"

definition utils_computeSHA256 :: "tools \<Rightarrow> world \<Rightarrow> path \<Rightarrow> error + string" where
  "utils_computeSHA256 T w filePath =
    (case readFile w filePath of
      None \<Rightarrow> Inl ENOENT
    | Some fileBuffer \<Rightarrow> Inr (sha256 T fileBuffer))"

text \<open>
  \<open>createDelta\<close> returns \<open>true\<close> whenever \<open>spawnSync\<close> returns, whatever the exit status,
  and \<open>null\<close> when it throws.
\<close>

definition createDelta :: "tools \<Rightarrow> path \<Rightarrow> path \<Rightarrow> path \<Rightarrow> world \<Rightarrow> bool option \<times> world" where
  "createDelta T oldDir newDir patchOut w =
    (case hdiffz T (files w) oldDir newDir patchOut of
      SpawnThrew \<Rightarrow> (None, w)
    | Exited status written \<Rightarrow>
        (Some True, (case written of None \<Rightarrow> w | Some b \<Rightarrow> writeFile patchOut b w)))"

definition DeltaInstallerBuilder_build :: "tools \<Rightarrow> nsis_defines \<Rightarrow> world \<Rightarrow> path option \<times> world" where
  "DeltaInstallerBuilder_build T defines w =
    (case makensis T (files w) defines of
      (created, written) \<Rightarrow>
        ((if created then Some (INSTALLER_OUTPUT_PATH defines) else None),
         (case written of
           None \<Rightarrow> w
         | Some b \<Rightarrow> writeFile (INSTALLER_OUTPUT_PATH defines) b w)))"

subsection \<open>\<open>createAllDeltas\<close>\<close>

text \<open>
  The options of \<open>createAllDeltas\<close>. \<open>getPreviousReleases\<close> either throws or yields the
  releases; \<open>sign\<close> is given the file at the path it is called with, may throw, and
  leaves that file with the content it returns.
\<close>

record options =
  platform :: string
  outDir :: path
  cacheDir :: path
  target :: string
  opt_getPreviousReleases :: "string \<Rightarrow> string \<Rightarrow> error + release list"
  sign :: "bytes option \<Rightarrow> error + bytes option"
  productIconPath :: path
  productName :: string
  processName :: string
  latestReleaseFilePath :: path
  latestReleaseFileName :: string
  latestVersion :: string

record prepared =
  rurl :: string
  rversion :: "string option"
  fileName :: string

definition preparePreviousReleases :: "tools \<Rightarrow> release list \<Rightarrow> prepared list" where
  "preparePreviousReleases T previousReleases =
    map (\<lambda>r. \<lparr>rurl = url r, rversion = semverClean T (version r),
              fileName = fileNameFromUrl (url r)\<rparr>) previousReleases"

text \<open>
  A version inside a template string or as a property key: \<open>null\<close> prints as \<open>null\<close>.
  \<open>deltaFileName\<close> and \<open>installerFileName\<close> are the two template strings of the loops.
\<close>

definition str_of :: "string option \<Rightarrow> string" where
  "str_of v = (case v of None \<Rightarrow> ''null'' | Some s \<Rightarrow> s)"

definition versionKey :: "prepared \<Rightarrow> string" where
  "versionKey r = str_of (rversion r)"

definition deltaFileName :: "options \<Rightarrow> string \<Rightarrow> string" where
  "deltaFileName opts v =
    productName opts @ ''-'' @ v @ ''-to-'' @ latestVersion opts @ ''.delta''"

definition installerFileName :: "options \<Rightarrow> string \<Rightarrow> string" where
  "installerFileName opts v =
    productName opts @ ''-'' @ v @ ''-to-'' @ latestVersion opts @ ''-delta.exe''"

fun downloadInstallers :: "tools \<Rightarrow> path \<Rightarrow> prepared list \<Rightarrow> world \<Rightarrow> error + world" where
  "downloadInstallers T dataDir [] w = Inr w"
| "downloadInstallers T dataDir (r # rs) w =
    (case downloadFileIfNotExists T (rurl r) (path_join dataDir (fileName r)) w of
      Inl e \<Rightarrow> Inl e
    | Inr w' \<Rightarrow> downloadInstallers T dataDir rs w')"

definition expectedBinary :: "options \<Rightarrow> path \<Rightarrow> path" where
  "expectedBinary opts extractedDir =
    path_join extractedDir
      (processName opts @ (if platform opts = ''mac'' then ''.app'' else ''.exe''))"

fun extractInstallers ::
  "tools \<Rightarrow> options \<Rightarrow> path \<Rightarrow> prepared list \<Rightarrow> world \<Rightarrow> error + world" where
  "extractInstallers T opts dataDir [] w = Inr w"
| "extractInstallers T opts dataDir (r # rs) w =
    (case rversion r of
      None \<Rightarrow> Inl InvalidArgType
    | Some v \<Rightarrow>
        if \<not> existsSync w (expectedBinary opts (path_join dataDir v))
        then
          (case ensureDir T (path_join dataDir v) w of
            Inl e \<Rightarrow> Inl e
          | Inr w1 \<Rightarrow>
              (case extract7zip T (path_join dataDir (fileName r)) (path_join dataDir v)
                      (emptyDir (path_join dataDir v) w1) of
                Inl e \<Rightarrow> Inl e
              | Inr w' \<Rightarrow> extractInstallers T opts dataDir rs w'))
        else extractInstallers T opts dataDir rs w)"

fun computeDeltas ::
  "tools \<Rightarrow> options \<Rightarrow> path \<Rightarrow> path \<Rightarrow> path \<Rightarrow> prepared list \<Rightarrow> world \<Rightarrow> error + world" where
  "computeDeltas T opts dataDir deltaDir latestReleaseDir [] w = Inr w"
| "computeDeltas T opts dataDir deltaDir latestReleaseDir (r # rs) w =
    (case rversion r of
      None \<Rightarrow> Inl InvalidArgType
    | Some v \<Rightarrow>
        (let deltaFilePath = path_join deltaDir (deltaFileName opts (versionKey r));
             oldDir = (if platform opts = ''win'' then path_join dataDir v
                       else path_join (path_join dataDir v) (productName opts @ ''.app''));
             newDir = (if platform opts = ''win'' then latestReleaseDir
                       else path_join latestReleaseDir (productName opts @ ''.app''))
         in computeDeltas T opts dataDir deltaDir latestReleaseDir rs
              (snd (createDelta T oldDir newDir deltaFilePath w))))"

fun buildInstallers ::
  "tools \<Rightarrow> options \<Rightarrow> path \<Rightarrow> path \<Rightarrow> prepared list \<Rightarrow> (string \<times> json) list \<Rightarrow> world
     \<Rightarrow> error + ((string \<times> json) list \<times> world)" where
  "buildInstallers T opts deltaDir outputDir [] deltaJSON w = Inr (deltaJSON, w)"
| "buildInstallers T opts deltaDir outputDir (r # rs) deltaJSON w =
    (let installerOutputPath = path_join outputDir (installerFileName opts (versionKey r));
         w1 = snd (DeltaInstallerBuilder_build T
                \<lparr>PRODUCT_NAME = productName opts, PROCESS_NAME = processName opts,
                 INSTALLER_OUTPUT_PATH = installerOutputPath,
                 DELTA_FILE_PATH = path_join deltaDir (deltaFileName opts (versionKey r)),
                 DELTA_FILE_NAME = deltaFileName opts (versionKey r),
                 PRODUCT_ICON_PATH = productIconPath opts\<rparr> w)
     in case sign opts (readFile w1 installerOutputPath) of
          Inl e \<Rightarrow> Inl e
        | Inr signed \<Rightarrow>
            buildInstallers T opts deltaDir outputDir rs
              (AList.update (versionKey r)
                 (JObj [(''path'', JStr (installerFileName opts (versionKey r)))]) deltaJSON)
              (putFile installerOutputPath signed w1))"

definition fs_move :: "path \<Rightarrow> path \<Rightarrow> world \<Rightarrow> error + world" where
  "fs_move src dest w =
    (case readFile w src of
      None \<Rightarrow> Inl ENOENT
    | Some b \<Rightarrow>
        if existsSync w dest then Inl DestExists
        else Inr (writeFile dest b (w\<lparr>files := AList.delete src (files w)\<rparr>)))"

fun moveDeltas ::
  "options \<Rightarrow> path \<Rightarrow> path \<Rightarrow> prepared list \<Rightarrow> (string \<times> json) list \<Rightarrow> world
     \<Rightarrow> error + ((string \<times> json) list \<times> world)" where
  "moveDeltas opts deltaDir outputDir [] deltaJSON w = Inr (deltaJSON, w)"
| "moveDeltas opts deltaDir outputDir (r # rs) deltaJSON w =
    (case fs_move (path_join deltaDir (deltaFileName opts (versionKey r)))
            (path_join outputDir (deltaFileName opts (versionKey r))) w of
      Inl e \<Rightarrow> Inl e
    | Inr w' \<Rightarrow>
        moveDeltas opts deltaDir outputDir rs
          (AList.update (versionKey r)
             (JObj [(''path'', JStr (deltaFileName opts (versionKey r)))]) deltaJSON) w')"

text \<open>
  The checksum loop, for either platform: \<open>name\<close> is the published file name of a
  version. The store is only read.
\<close>

fun computeChecksums ::
  "tools \<Rightarrow> (string \<Rightarrow> string) \<Rightarrow> path \<Rightarrow> prepared list \<Rightarrow> (string \<times> json) list \<Rightarrow> world
     \<Rightarrow> error + (string \<times> json) list" where
  "computeChecksums T name outputDir [] deltaJSON w = Inr deltaJSON"
| "computeChecksums T name outputDir (r # rs) deltaJSON w =
    (case utils_computeSHA256 T w (path_join outputDir (name (versionKey r))) of
      Inl e \<Rightarrow> Inl e
    | Inr sha \<Rightarrow>
        computeChecksums T name outputDir rs
          (AList.update (versionKey r)
             (JObj (AList.update ''sha256'' (JStr sha)
                (spread (map_of deltaJSON (versionKey r)))))
             deltaJSON) w)"

definition manifestPath :: "options \<Rightarrow> path \<Rightarrow> path" where
  "manifestPath opts outputDir = path_join outputDir (''delta-'' @ platform opts @ ''.json'')"

definition initialDeltaJSON :: "options \<Rightarrow> (string \<times> json) list" where
  "initialDeltaJSON opts =
    [(''productName'', JStr (productName opts)), (''latestVersion'', JStr (latestVersion opts))]"

definition publish ::
  "tools \<Rightarrow> options \<Rightarrow> path \<Rightarrow> path \<Rightarrow> prepared list \<Rightarrow> world \<Rightarrow> error + (path list \<times> world)" where
  "publish T opts deltaDir outputDir previousReleases w =
    (case (if platform opts = ''win''
           then buildInstallers T opts deltaDir outputDir previousReleases (initialDeltaJSON opts) w
           else moveDeltas opts deltaDir outputDir previousReleases (initialDeltaJSON opts) w) of
      Inl e \<Rightarrow> Inl e
    | Inr (deltaJSON, w1) \<Rightarrow>
        (case computeChecksums T
                (if platform opts = ''win'' then installerFileName opts else deltaFileName opts)
                outputDir previousReleases deltaJSON w1 of
          Inl e \<Rightarrow> Inl e
        | Inr deltaJSON' \<Rightarrow>
            (let w2 = writeFile (manifestPath opts outputDir) (JSON_stringify T deltaJSON') w1
             in Inr (map (path_join outputDir) (readdirSync w2 outputDir), w2))))"

definition outputDirOf :: "options \<Rightarrow> path" where
  "outputDirOf opts = path_join (outDir opts) (latestVersion opts @ ''-'' @ platform opts @ ''-deltas'')"

definition createAllDeltas ::
  "tools \<Rightarrow> options \<Rightarrow> world \<Rightarrow> error + (path list option \<times> world)" where
  "createAllDeltas T opts w0 =
    (let dataDir = path_join (cacheDir opts) ''data'';
         deltaDir = path_join (cacheDir opts) ''deltas''
     in case ensureDir T (cacheDir opts) w0 of
          Inl e \<Rightarrow> Inl e
        | Inr wa \<Rightarrow>
       (case ensureDir T dataDir wa of
          Inl e \<Rightarrow> Inl e
        | Inr wb \<Rightarrow>
       (case ensureDir T deltaDir wb of
          Inl e \<Rightarrow> Inl e
        | Inr w1 \<Rightarrow>
       (let allReleases = (case opt_getPreviousReleases opts (platform opts) (target opts) of
                            Inl e \<Rightarrow> []
                          | Inr rs \<Rightarrow> rs)
        in if allReleases = [] then Inr (None, w1)
           else
             (let previousReleases = preparePreviousReleases T (take 10 allReleases);
                  latestReleaseDir = path_join dataDir (latestVersion opts);
                  outputDir = outputDirOf opts
              in case downloadInstallers T dataDir previousReleases w1 of
                   Inl e \<Rightarrow> Inl e
                 | Inr w2 \<Rightarrow>
                (case extractInstallers T opts dataDir previousReleases w2 of
                   Inl e \<Rightarrow> Inl e
                 | Inr w3 \<Rightarrow>
                (case extract7zip T (latestReleaseFilePath opts) latestReleaseDir w3 of
                   Inl e \<Rightarrow> Inl e
                 | Inr w4 \<Rightarrow>
                (case ensureDir T latestReleaseDir w4 of
                   Inl e \<Rightarrow> Inl e
                 | Inr wc \<Rightarrow>
                (case ensureDir T outputDir wc of
                   Inl e \<Rightarrow> Inl e
                 | Inr wd \<Rightarrow>
                (case computeDeltas T opts dataDir deltaDir latestReleaseDir previousReleases
                        (emptyDir outputDir wd) of
                   Inl e \<Rightarrow> Inl e
                 | Inr w5 \<Rightarrow>
                (case publish T opts deltaDir outputDir previousReleases w5 of
                   Inl e \<Rightarrow> Inl e
                 | Inr (produced, w6) \<Rightarrow> Inr (Some produced, w6))))))))))))"

subsection \<open>Notions used to state the properties of the pipeline\<close>

text \<open>
  The file name under which a version is published, the entries of a manifest object
  other than \<open>productName\<close> and \<open>latestVersion\<close>, and the manifest object that
  corresponds to a list of version keys and a store: every key of the list carries its
  published file name and the hash of that file.
\<close>

definition publishedName :: "options \<Rightarrow> string \<Rightarrow> string" where
  "publishedName opts =
    (if platform opts = ''win'' then installerFileName opts else deltaFileName opts)"

definition versionEntries :: "(string \<times> json) list \<Rightarrow> (string \<times> json) list" where
  "versionEntries deltaJSON =
    filter (\<lambda>(k, x). k \<noteq> ''productName'' \<and> k \<noteq> ''latestVersion'') deltaJSON"

definition pathEntry :: "(string \<Rightarrow> string) \<Rightarrow> string \<Rightarrow> json" where
  "pathEntry name k = JObj [(''path'', JStr (name k))]"

definition withSha ::
  "tools \<Rightarrow> world \<Rightarrow> path \<Rightarrow> (string \<Rightarrow> string) \<Rightarrow> string \<Rightarrow> json \<Rightarrow> json" where
  "withSha T w outputDir name k x =
    JObj (AList.update ''sha256''
      (JStr (case readFile w (path_join outputDir (name k)) of None \<Rightarrow> [] | Some c \<Rightarrow> sha256 T c))
      (spread (Some x)))"

definition manifestOf ::
  "tools \<Rightarrow> options \<Rightarrow> string list \<Rightarrow> world \<Rightarrow> (string \<times> json) list" where
  "manifestOf T opts ks w =
    map (\<lambda>(k, x). if List.member ks k
                   then (k, withSha T w (outputDirOf opts) (publishedName opts) k
                              (pathEntry (publishedName opts) k))
                   else (k, x))
      (fold (\<lambda>k. AList.update k (pathEntry (publishedName opts) k)) ks (initialDeltaJSON opts))"


subsection \<open>A concrete build\<close>

text \<open>
  A Windows build of version 2.0.0 of \<open>App\<close> with one prior release, 1.0.0, and toy
  collaborators: a diff tool and an installer compiler that always succeed, a signer that
  appends a signature, and readable stand-ins for the hash and for \<open>JSON.stringify\<close>.
  \<open>cold_world\<close> holds only the new installer; \<open>warm_world\<close> is the store after one
  build, \<open>rerun_world\<close> the store after a second one.
\<close>

definition demo_stringify :: "(string \<times> json) list \<Rightarrow> bytes" where
  "demo_stringify j =
    concat (map (\<lambda>(k, v). k @ ''='' @
      (case v of
        JStr s \<Rightarrow> s
      | JObj fs \<Rightarrow>
          concat (map (\<lambda>(f, x). f @ '':'' @ (case x of JStr s \<Rightarrow> s | _ \<Rightarrow> ''?'') @ '','') fs)
      | _ \<Rightarrow> ''?'') @ '';'') j)"

definition demo_tools :: tools where
  "demo_tools =
    \<lparr>mkdirp = (\<lambda>d. None),
     semverClean = (\<lambda>s. Some (dropWhile (\<lambda>c. c = CHR ''v'') s)),
     httpGet = (\<lambda>u. Some (''installer '' @ u)),
     unpack7z = (\<lambda>z. Some [(''App.exe'', ''binary of '' @ z)]),
     hdiffz = (\<lambda>fs old new out. Exited 0 (Some (''patch '' @ old @ '' '' @ new))),
     makensis = (\<lambda>fs d. case map_of fs (DELTA_FILE_PATH d) of
                           None \<Rightarrow> (True, None)
                         | Some p \<Rightarrow> (True, Some (''nsis '' @ p))),
     sha256 = (\<lambda>b. ''sha '' @ b),
     JSON_stringify = demo_stringify\<rparr>"

definition demo_releases :: "release list" where
  "demo_releases = [\<lparr>version = ''v1.0.0'', url = ''h/App-1.0.0.exe''\<rparr>]"

definition demo_options :: options where
  "demo_options =
    \<lparr>platform = ''win'', outDir = ''out'', cacheDir = ''c'', target = ''nsis'',
     opt_getPreviousReleases = (\<lambda>p t. Inr demo_releases),
     sign = (\<lambda>c. Inr (map_option (\<lambda>b. b @ '' signed'') c)),
     productIconPath = ''icon.ico'', productName = ''App'', processName = ''App'',
     latestReleaseFilePath = ''dist/App-2.0.0.exe'', latestReleaseFileName = ''App-2.0.0'',
     latestVersion = ''2.0.0''\<rparr>"

definition cold_world :: world where
  "cold_world = \<lparr>files = [(''dist/App-2.0.0.exe'', ''new'')], downloads = 0, extractions = 0\<rparr>"

definition demo_manifest :: "string \<Rightarrow> (string \<times> json) list" where
  "demo_manifest installer =
    [(''productName'', JStr ''App''), (''latestVersion'', JStr ''2.0.0''),
     (''1.0.0'', JObj [(''path'', JStr ''App-1.0.0-to-2.0.0-delta.exe''),
                       (''sha256'', JStr (''sha '' @ installer))])]"

definition warm_world :: world where
  "warm_world =
    \<lparr>files =
       [(''dist/App-2.0.0.exe'', ''new''),
        (''c/data/App-1.0.0.exe'', ''installer h/App-1.0.0.exe''),
        (''c/data/1.0.0/App.exe'', ''binary of installer h/App-1.0.0.exe''),
        (''c/data/2.0.0/App.exe'', ''binary of new''),
        (''c/deltas/App-1.0.0-to-2.0.0.delta'', ''patch c/data/1.0.0 c/data/2.0.0''),
        (''out/2.0.0-win-deltas/App-1.0.0-to-2.0.0-delta.exe'',
         ''nsis patch c/data/1.0.0 c/data/2.0.0 signed''),
        (''out/2.0.0-win-deltas/delta-win.json'',
         demo_stringify (demo_manifest ''nsis patch c/data/1.0.0 c/data/2.0.0 signed''))],
     downloads = 1, extractions = 2\<rparr>"

definition rerun_world :: world where
  "rerun_world = warm_world\<lparr>extractions := 3\<rparr>"

definition demo_produced :: "path list" where
  "demo_produced =
    [''out/2.0.0-win-deltas/App-1.0.0-to-2.0.0-delta.exe'', ''out/2.0.0-win-deltas/delta-win.json'']"

text \<open>
  The same build with a diff tool that fails (exit status 1, nothing written), once on
  the cold store and once on a store that still holds the patch file of an earlier build
  of the same version pair.
\<close>

definition failing_diff_tools :: tools where
  "failing_diff_tools = demo_tools\<lparr>hdiffz := (\<lambda>fs old new out. Exited 1 None)\<rparr>"

definition stale_world :: world where
  "stale_world =
    \<lparr>files = [(''dist/App-2.0.0.exe'', ''new''),
              (''c/deltas/App-1.0.0-to-2.0.0.delta'', ''stale patch'')],
     downloads = 0, extractions = 0\<rparr>"

text \<open>
  A store in which a regular file stands where the cache directory should be, and the
  options of the build with a release index that cannot be reached.
\<close>

definition blocked_world :: world where
  "blocked_world = \<lparr>files = [(''c'', ''not a directory'')], downloads = 0, extractions = 0\<rparr>"

definition offline_options :: options where
  "offline_options = demo_options\<lparr>opt_getPreviousReleases := (\<lambda>p t. Inl ReleaseIndexError)\<rparr>"



text \<open>
  A build whose latest artifact lies where the run itself writes: at the path of the delta
  installer in the output directory. Its diff tool reads the executable of the new
  directory into the patch.
\<close>

definition reading_diff_tools :: tools where
  "reading_diff_tools =
    demo_tools\<lparr>hdiffz := (\<lambda>fs old new out.
      Exited 0 (Some (''patch to '' @
        (case map_of fs (new @ ''/App.exe'') of None \<Rightarrow> ''nothing'' | Some b \<Rightarrow> b))))\<rparr>"



section \<open>The update client: URLs, downloads and checksums\<close>

subsection \<open>\<open>utils.ts\<close> of the updater: feed URLs\<close>

text \<open>
  The platform's \<open>URL\<close> class is a collaborator, taken as a parameter: \<open>new URL(s)\<close> and
  \<open>new URL(s, base)\<close> (\<open>None\<close> when they throw), the \<open>pathname\<close> getter and setter, and
  \<open>href\<close>. \<open>url_opaque\<close> is a notion of the URL standard that scripts cannot read: whether
  the URL has an opaque path (as \<open>mailto:\<close> and \<open>data:\<close> URLs have) rather than a list of
  path segments.
\<close>

record 'u url_api =
  url_new :: "string \<Rightarrow> 'u option"
  url_new_base :: "string \<Rightarrow> string \<Rightarrow> 'u option"
  url_pathname :: "'u \<Rightarrow> string"
  url_set_pathname :: "string \<Rightarrow> 'u \<Rightarrow> 'u"
  url_href :: "'u \<Rightarrow> string"
  url_opaque :: "'u \<Rightarrow> bool"

definition newBaseUrl :: "'u url_api \<Rightarrow> string \<Rightarrow> error + string" where
  "newBaseUrl api u =
    (case url_new api u of
      None \<Rightarrow> Inl InvalidURL
    | Some result \<Rightarrow>
        Inr (url_href api
          (if \<not> endsWith (url_pathname api result) ''/''
           then url_set_pathname api (url_pathname api result @ ''/'') result
           else result)))"

definition newUrlFromBase :: "'u url_api \<Rightarrow> string \<Rightarrow> string \<Rightarrow> error + string" where
  "newUrlFromBase api pathname baseUrl =
    (case url_new_base api pathname baseUrl of
      None \<Rightarrow> Inl InvalidURL
    | Some result \<Rightarrow> Inr (url_href api result))"

subsection \<open>\<open>download.ts\<close>\<close>

text \<open>
  The client's disk maps a path to a file or a directory. The network answers a request
  with an error event or with a response: status code, \<open>Location\<close> header if any, and a
  body that arrives whole or breaks off. A promise is resolved, rejected, or never
  settled.
\<close>

datatype node = File bytes | Directory

type_synonym disk = "path \<Rightarrow> node option"

datatype body = Complete bytes | Broken

datatype reply = RequestError | Response nat "string option" body

datatype settled = Resolved | Rejected error | Pending

text \<open>
  \<open>downloadFile\<close>. On a redirect the promise of the nested call is chained with
  \<open>.then(() => resolve())\<close> only: when the nested call resolves, so does this one; when it
  rejects or never settles, this one never settles. A missing \<open>Location\<close> header makes
  the nested call reject (\<open>url.startsWith\<close> on \<open>undefined\<close>). The function does not return
  (\<open>None\<close>) on an endless chain of redirects. Progress callbacks only notify and are left
  out.
\<close>

partial_function (option) downloadFile ::
  "(string \<Rightarrow> reply) \<Rightarrow> (path \<Rightarrow> bool) \<Rightarrow> string \<Rightarrow> path \<Rightarrow> disk \<Rightarrow> (settled \<times> disk) option" where
  "downloadFile net writable u filePath d =
    (case net u of
      RequestError \<Rightarrow> Some (Rejected ConnectionError, d)
    | Response statusCode location content \<Rightarrow>
        if statusCode = 200 then
          (if \<not> writable filePath then Some (Rejected StreamError, d)
           else (case content of
                  Complete b \<Rightarrow> Some (Resolved, d(filePath \<mapsto> File b))
                | Broken \<Rightarrow> Some (Rejected StreamError, d(filePath := None))))
        else if statusCode = 302 \<or> statusCode = 301 then
          (case location of
            None \<Rightarrow> Some (Pending, d)
          | Some redirect \<Rightarrow>
              Option.bind (downloadFile net writable redirect filePath d)
                (\<lambda>(nested, d'). Some ((case nested of Resolved \<Rightarrow> Resolved | _ \<Rightarrow> Pending), d')))
        else Some (Rejected (NetworkError statusCode), d))"

subsection \<open>Checksums of the updater\<close>

text \<open>
  A JavaScript value read from parsed JSON is a \<open>json option\<close>, \<open>None\<close> being
  \<open>undefined\<close>. Property lookup covers own properties (and \<open>length\<close> of strings and
  arrays); the keys used are versions and field names, never members of a prototype.
\<close>

definition truthy :: "json option \<Rightarrow> bool" where
  "truthy x =
    (case x of
      None \<Rightarrow> False
    | Some JNull \<Rightarrow> False
    | Some (JBool b) \<Rightarrow> b
    | Some (JNum n) \<Rightarrow> n \<noteq> 0
    | Some (JStr s) \<Rightarrow> s \<noteq> []
    | Some _ \<Rightarrow> True)"

definition get_prop :: "json option \<Rightarrow> string \<Rightarrow> json option" where
  "get_prop x k =
    (case x of
      Some (JObj fs) \<Rightarrow> map_of fs k
    | Some (JStr s) \<Rightarrow>
        if k = ''length'' then Some (JNum (int (length s))) else map_of (spread x) k
    | Some (JArr xs) \<Rightarrow>
        if k = ''length'' then Some (JNum (int (length xs))) else map_of (spread x) k
    | _ \<Rightarrow> None)"

definition computeSHA256 :: "(bytes \<Rightarrow> string) \<Rightarrow> disk \<Rightarrow> path \<Rightarrow> error + string option" where
  "computeSHA256 hash d filePath =
    (case d filePath of
      None \<Rightarrow> Inr None
    | Some Directory \<Rightarrow> Inl EISDIR
    | Some (File fileBuffer) \<Rightarrow> Inr (Some (hash fileBuffer)))"

text \<open>
  \<open>sha === correctSHA\<close>, where \<open>sha\<close> is \<open>null\<close> or a string: true exactly when
  \<open>correctSHA\<close> is \<open>null\<close>, respectively the same string.
\<close>

definition isSHACorrect :: "(bytes \<Rightarrow> string) \<Rightarrow> disk \<Rightarrow> path \<Rightarrow> json option \<Rightarrow> bool" where
  "isSHACorrect hash d filePath correctSHA =
    (case computeSHA256 hash d filePath of
      Inl e \<Rightarrow> False
    | Inr None \<Rightarrow> correctSHA = Some JNull
    | Inr (Some sha) \<Rightarrow> correctSHA = Some (JStr sha))"

subsection \<open>The update cycle\<close>

text \<open>
  The fields of the \<open>DeltaUpdater\<close> object that the cycle reads, and the process around
  it: the running version, the platform, \<open>semver.prerelease\<close>, \<open>fetch\<close> of the manifest
  (the request fails, or answers with a status and a body that parses as JSON or not),
  the network and disk behind \<open>downloadFile\<close>, the hash, and \<open>fs.readJSON\<close>.
\<close>

record updater =
  hostURL :: "string option"
  deltaHolderPath :: path
  macUpdaterPath :: path
  hpatchzPath :: path
  updateDetailsJSON :: path

datatype fetched = FetchFailed | Fetched nat "json option"

record 'u host =
  app_version :: string
  process_platform :: string
  semver_prerelease :: "string \<Rightarrow> json list option"
  url_class :: "'u url_api"
  fetch :: "string \<Rightarrow> fetched"
  net :: "string \<Rightarrow> reply"
  writable :: "path \<Rightarrow> bool"
  crypto_sha256 :: "bytes \<Rightarrow> string"
  readJSON :: "bytes \<Rightarrow> json option"

record update_info =
  info_version :: string
  releaseDate :: string

text \<open>
  What a cycle does is recorded as the list of calls it makes, the disk it leaves and how
  it ends: it completes, an exception escapes it, or it waits forever on a promise.
  Log lines, events emitted to listeners and to the splash window, and the creation of
  the holder directory are not recorded.
\<close>

datatype call =
    DownloadUpdate                    \<comment> \<open>\<open>autoUpdater.downloadUpdate()\<close>\<close>
  | DoSmartDownload string            \<comment> \<open>\<open>this.doSmartDownload(info)\<close>\<close>
  | Fetch string                      \<comment> \<open>\<open>fetch(deltaJSONUrl)\<close>\<close>
  | DownloadHelper string path        \<comment> \<open>\<open>downloadFile\<close> of a macOS helper\<close>
  | Chmod path
  | DownloadDelta string path         \<comment> \<open>\<open>downloadFile(deltaURL, deltaPath, ...)\<close>\<close>
  | EmitUpdateDownloaded path string  \<comment> \<open>\<open>deltaDownloaded(deltaPath)\<close>\<close>

datatype ending = Completed | Raised error | NeverSettles

record run =
  calls :: "call list"
  disk_after :: disk
  ending :: ending

definition getChannel :: "'u host \<Rightarrow> json option" where
  "getChannel h =
    (case semver_prerelease h (app_version h) of
      None \<Rightarrow> Some (JStr ''latest'')
    | Some preRelease \<Rightarrow> (case preRelease of [] \<Rightarrow> None | c # cs \<Rightarrow> Some c))"

definition js_base :: "string option \<Rightarrow> string" where
  "js_base b = (case b of None \<Rightarrow> ''null'' | Some s \<Rightarrow> s)"

definition getDeltaJSONUrl :: "'u host \<Rightarrow> updater \<Rightarrow> error + string" where
  "getDeltaJSONUrl h u =
    newUrlFromBase (url_class h)
      (if process_platform h = ''win32'' then ''delta-win.json'' else ''delta-mac.json'')
      (js_base (hostURL u))"

definition getAutoUpdateDetails :: "'u host \<Rightarrow> updater \<Rightarrow> disk \<Rightarrow> json" where
  "getAutoUpdateDetails h u d =
    (case d (updateDetailsJSON u) of
      Some (File b) \<Rightarrow> (case readJSON h b of None \<Rightarrow> JNull | Some data \<Rightarrow> data)
    | _ \<Rightarrow> JNull)"

definition fetchDeltaJSON :: "'u host \<Rightarrow> string \<Rightarrow> json" where
  "fetchDeltaJSON h deltaJSONUrl =
    (case fetch h deltaJSONUrl of
      FetchFailed \<Rightarrow> JNull
    | Fetched status parsed \<Rightarrow>
        if status \<noteq> 200 then JNull
        else (case parsed of None \<Rightarrow> JNull | Some deltaJSON \<Rightarrow> deltaJSON))"

definition fallback :: "call list \<Rightarrow> disk \<Rightarrow> run" where
  "fallback cs d = \<lparr>calls = cs @ [DownloadUpdate], disk_after = d, ending = Completed\<rparr>"

text \<open>
  The macOS block: both helpers are downloaded and made executable; the result is how
  the \<open>try\<close> block ends (normally, by a caught exception, or never).
\<close>

definition chmod :: "disk \<Rightarrow> path \<Rightarrow> bool" where
  "chmod d p = (d p \<noteq> None)"

definition downloadHelpers :: "'u host \<Rightarrow> updater \<Rightarrow> disk \<Rightarrow> call list \<times> disk \<times> settled" where
  "downloadHelpers h u d =
    (case newUrlFromBase (url_class h) ''mac-updater'' (js_base (hostURL u)) of
      Inl e \<Rightarrow> ([], d, Rejected e)
    | Inr macUpdaterURL \<Rightarrow>
    (case newUrlFromBase (url_class h) ''hpatchz'' (js_base (hostURL u)) of
      Inl e \<Rightarrow> ([], d, Rejected e)
    | Inr hpatchzURL \<Rightarrow>
    (case downloadFile (net h) (writable h) macUpdaterURL (macUpdaterPath u) d of
      None \<Rightarrow> ([DownloadHelper macUpdaterURL (macUpdaterPath u)], d, Pending)
    | Some (Pending, d1) \<Rightarrow> ([DownloadHelper macUpdaterURL (macUpdaterPath u)], d1, Pending)
    | Some (Rejected e, d1) \<Rightarrow> ([DownloadHelper macUpdaterURL (macUpdaterPath u)], d1, Rejected e)
    | Some (Resolved, d1) \<Rightarrow>
    (case downloadFile (net h) (writable h) hpatchzURL (hpatchzPath u) d1 of
      None \<Rightarrow>
        ([DownloadHelper macUpdaterURL (macUpdaterPath u),
          DownloadHelper hpatchzURL (hpatchzPath u)], d1, Pending)
    | Some (Pending, d2) \<Rightarrow>
        ([DownloadHelper macUpdaterURL (macUpdaterPath u),
          DownloadHelper hpatchzURL (hpatchzPath u)], d2, Pending)
    | Some (Rejected e, d2) \<Rightarrow>
        ([DownloadHelper macUpdaterURL (macUpdaterPath u),
          DownloadHelper hpatchzURL (hpatchzPath u)], d2, Rejected e)
    | Some (Resolved, d2) \<Rightarrow>
        if \<not> chmod d2 (macUpdaterPath u) then
          ([DownloadHelper macUpdaterURL (macUpdaterPath u),
            DownloadHelper hpatchzURL (hpatchzPath u), Chmod (macUpdaterPath u)], d2,
           Rejected ENOENT)
        else if \<not> chmod d2 (hpatchzPath u) then
          ([DownloadHelper macUpdaterURL (macUpdaterPath u),
            DownloadHelper hpatchzURL (hpatchzPath u), Chmod (macUpdaterPath u),
            Chmod (hpatchzPath u)], d2, Rejected ENOENT)
        else
          ([DownloadHelper macUpdaterURL (macUpdaterPath u),
            DownloadHelper hpatchzURL (hpatchzPath u), Chmod (macUpdaterPath u),
            Chmod (hpatchzPath u)], d2, Resolved)))))"

text \<open>The last \<open>try\<close> block: what follows the awaited download, and the block itself.\<close>

definition verifyDownloaded ::
  "'u host \<Rightarrow> update_info \<Rightarrow> path \<Rightarrow> json option \<Rightarrow> call list \<Rightarrow> disk \<Rightarrow> run" where
  "verifyDownloaded h info deltaPath shaVal cs d =
    (if \<not> isSHACorrect (crypto_sha256 h) d deltaPath shaVal then fallback cs d
     else \<lparr>calls = cs @ [EmitUpdateDownloaded deltaPath (info_version info)],
           disk_after = d, ending = Completed\<rparr>)"

definition downloadAndVerify ::
  "'u host \<Rightarrow> update_info \<Rightarrow> string \<Rightarrow> path \<Rightarrow> json option \<Rightarrow> call list \<Rightarrow> disk \<Rightarrow> run" where
  "downloadAndVerify h info deltaURL deltaPath shaVal cs d =
    (case downloadFile (net h) (writable h) deltaURL deltaPath d of
      None \<Rightarrow>
        \<lparr>calls = cs @ [DownloadDelta deltaURL deltaPath], disk_after = d, ending = NeverSettles\<rparr>
    | Some (Pending, d') \<Rightarrow>
        \<lparr>calls = cs @ [DownloadDelta deltaURL deltaPath], disk_after = d', ending = NeverSettles\<rparr>
    | Some (Rejected e, d') \<Rightarrow> fallback (cs @ [DownloadDelta deltaURL deltaPath]) d'
    | Some (Resolved, d') \<Rightarrow>
        verifyDownloaded h info deltaPath shaVal (cs @ [DownloadDelta deltaURL deltaPath]) d')"

text \<open>
  \<open>String(x)\<close> of a value used as a relative URL. Only a string \<open>path\<close> gets past
  \<open>path.join\<close> later on; for any other value the URL built from its coercion is taken to
  parse like the text \<open>undefined\<close>.
\<close>

definition js_String :: "json option \<Rightarrow> string" where
  "js_String x = (case x of Some (JStr s) \<Rightarrow> s | _ \<Rightarrow> ''undefined'')"

definition getDeltaURL :: "'u host \<Rightarrow> updater \<Rightarrow> json option \<Rightarrow> error + string" where
  "getDeltaURL h u deltaPath = newUrlFromBase (url_class h) (js_String deltaPath) (js_base (hostURL u))"

definition doSmartDownload :: "'u host \<Rightarrow> updater \<Rightarrow> update_info \<Rightarrow> disk \<Rightarrow> run" where
  "doSmartDownload h u info d =
    (if \<not> truthy (getChannel h)
     then \<lparr>calls = [DoSmartDownload (info_version info)], disk_after = d, ending = Completed\<rparr>
     else
      (case getDeltaJSONUrl h u of
        Inl e \<Rightarrow>
          \<lparr>calls = [DoSmartDownload (info_version info)], disk_after = d, ending = Raised e\<rparr>
      | Inr deltaJSONUrl \<Rightarrow>
        (let cs = [DoSmartDownload (info_version info), Fetch deltaJSONUrl];
             deltaJSON = fetchDeltaJSON h deltaJSONUrl
         in if \<not> truthy (Some deltaJSON) then fallback cs d
         else
          (let deltaDetails = get_prop (Some deltaJSON) (app_version h)
           in if \<not> truthy deltaDetails then fallback cs d
           else
            (case getDeltaURL h u (get_prop deltaDetails ''path'') of
              Inl e \<Rightarrow> \<lparr>calls = cs, disk_after = d, ending = Raised e\<rparr>
            | Inr deltaURL \<Rightarrow>
              (let shaVal = get_prop deltaDetails ''sha256''
               in if \<not> truthy shaVal then fallback cs d
               else
                (case (if process_platform h = ''darwin'' then downloadHelpers h u d
                       else ([], d, Resolved)) of
                  (cs', d1, Rejected e) \<Rightarrow> fallback (cs @ cs') d1
                | (cs', d1, Pending) \<Rightarrow>
                    \<lparr>calls = cs @ cs', disk_after = d1, ending = NeverSettles\<rparr>
                | (cs', d1, Resolved) \<Rightarrow>
                  (case get_prop deltaDetails ''path'' of
                    Some (JStr p) \<Rightarrow>
                      (let deltaPath = path_join (deltaHolderPath u) p
                       in if d1 deltaPath \<noteq> None \<and>
                             isSHACorrect (crypto_sha256 h) d1 deltaPath shaVal
                          then \<lparr>calls = cs @ cs' @ [EmitUpdateDownloaded deltaPath (info_version info)],
                                disk_after = d1, ending = Completed\<rparr>
                          else downloadAndVerify h info deltaURL deltaPath shaVal (cs @ cs') d1)
                  | _ \<Rightarrow> \<lparr>calls = cs @ cs', disk_after = d1, ending = Raised InvalidArgType\<rparr>))))))))"

text \<open>The handler of \<open>update-available\<close>.\<close>

definition on_update_available :: "'u host \<Rightarrow> updater \<Rightarrow> update_info \<Rightarrow> disk \<Rightarrow> run" where
  "on_update_available h u info d =
    (let updateDetails = getAutoUpdateDetails h u d
     in if truthy (Some updateDetails) \<and>
           get_prop (Some updateDetails) ''appVersion'' = Some (JStr (app_version h))
        then \<lparr>calls = [DownloadUpdate], disk_after = d, ending = Completed\<rparr>
        else doSmartDownload h u info d)"

section \<open>File names, and a small implementation of the \<open>URL\<close> class\<close>

text \<open>
  \<open>plain_url\<close> is an implementation of the \<open>URL\<close> interface for URL strings that are
  already in the form that \<open>href\<close> returns, with a lower-case scheme: on those, parsing only
  splits the string into scheme, authority, path, query and fragment. It is not the
  platform's parser: it normalises nothing (no percent-encoding, case folding, host parsing
  or removal of dot segments) and rejects what it does not split. It serves as the
  implementation at hand where one is needed: for the concrete client and for the
  concrete inputs of the properties below, on which it answers as the platform's class
  does. A URL without \<open>//\<close> whose path does not start with \<open>/\<close> (such as \<open>mailto:\<close> or
  \<open>data:\<close> URLs) has an opaque path; the \<open>pathname\<close> setter leaves a URL with an opaque
  path as it is.
\<close>

record url_record =
  u_scheme :: string
  u_authority :: "string option"
  u_opaque :: bool
  u_path :: string
  u_query :: "string option"
  u_fragment :: "string option"

definition before :: "char \<Rightarrow> string \<Rightarrow> string" where
  "before c s = takeWhile (\<lambda>x. x \<noteq> c) s"

definition after :: "char \<Rightarrow> string \<Rightarrow> string option" where
  "after c s = (if c \<in> set s then Some (tl (dropWhile (\<lambda>x. x \<noteq> c) s)) else None)"

definition lowercase :: string where
  "lowercase = ''abcdefghijklmnopqrstuvwxyz''"

definition uppercase :: string where
  "uppercase = ''ABCDEFGHIJKLMNOPQRSTUVWXYZ''"

definition scheme_marks :: string where
  "scheme_marks = ''0123456789+-.''"

definition is_scheme :: "string \<Rightarrow> bool" where
  "is_scheme s =
    (case s of
      [] \<Rightarrow> False
    | c # cs \<Rightarrow> c \<in> set lowercase \<and> list_all (\<lambda>x. x \<in> set (lowercase @ scheme_marks)) cs)"

definition has_scheme :: "string \<Rightarrow> bool" where
  "has_scheme s =
    (CHR '':'' \<in> set s \<and>
     (case before CHR '':'' s of
       [] \<Rightarrow> False
     | c # cs \<Rightarrow>
         c \<in> set (lowercase @ uppercase) \<and>
         list_all (\<lambda>x. x \<in> set (lowercase @ uppercase @ scheme_marks)) cs))"

definition special :: "string \<Rightarrow> bool" where
  "special s = (s \<in> set [''http'', ''https'', ''ws'', ''wss'', ''ftp'', ''file''])"

definition parse_hier ::
  "string \<Rightarrow> string \<Rightarrow> string option \<Rightarrow> string option \<Rightarrow> url_record option" where
  "parse_hier sch body q f =
    (let auth = before CHR ''/'' (drop 2 body);
         p = dropWhile (\<lambda>x. x \<noteq> CHR ''/'') (drop 2 body)
     in if special sch \<and> auth = [] \<and> sch \<noteq> ''file'' then None
        else Some \<lparr>u_scheme = sch, u_authority = Some auth, u_opaque = False,
                   u_path = (if special sch \<and> p = [] then ''/'' else p),
                   u_query = q, u_fragment = f\<rparr>)"

definition parse_url :: "string \<Rightarrow> url_record option" where
  "parse_url s =
    (if CHR '':'' \<in> set s \<and> is_scheme (before CHR '':'' s) then
      (let sch = before CHR '':'' s;
           rest = tl (dropWhile (\<lambda>x. x \<noteq> CHR '':'') s);
           f = after CHR ''#'' rest;
           q = after CHR ''?'' (before CHR ''#'' rest);
           body = before CHR ''?'' (before CHR ''#'' rest)
       in if prefix ''//'' body then parse_hier sch body q f
          else if special sch then None
          else if prefix ''/'' body then
            Some \<lparr>u_scheme = sch, u_authority = None, u_opaque = False, u_path = body,
                  u_query = q, u_fragment = f\<rparr>
          else Some \<lparr>u_scheme = sch, u_authority = None, u_opaque = True, u_path = body,
                     u_query = q, u_fragment = f\<rparr>)
     else None)"

definition href :: "url_record \<Rightarrow> string" where
  "href r =
    u_scheme r @ '':'' @ (case u_authority r of None \<Rightarrow> [] | Some a \<Rightarrow> ''//'' @ a) @ u_path r @
    (case u_query r of None \<Rightarrow> [] | Some q \<Rightarrow> CHR ''?'' # q) @
    (case u_fragment r of None \<Rightarrow> [] | Some f \<Rightarrow> CHR ''#'' # f)"

definition encode_path :: "string \<Rightarrow> string" where
  "encode_path v =
    concat (map (\<lambda>c. if c = CHR ''?'' then ''%3F'' else if c = CHR ''#'' then ''%23'' else [c]) v)"

definition set_pathname :: "string \<Rightarrow> url_record \<Rightarrow> url_record" where
  "set_pathname v r =
    (if u_opaque r then r
     else r\<lparr>u_path :=
       (if v = [] then (if special (u_scheme r) then ''/'' else [])
        else if hd v = CHR ''/'' then encode_path v
        else CHR ''/'' # encode_path v)\<rparr>)"

definition merge_path :: "string \<Rightarrow> string \<Rightarrow> string" where
  "merge_path base rel =
    (if base = [] then CHR ''/'' # rel
     else rev (dropWhile (\<lambda>x. x \<noteq> CHR ''/'') (rev base)) @ rel)"

definition parse_url_base :: "string \<Rightarrow> string \<Rightarrow> url_record option" where
  "parse_url_base rel base =
    (case parse_url base of
      None \<Rightarrow> None
    | Some b \<Rightarrow>
        if has_scheme rel then parse_url rel
        else if u_opaque b then
          (if prefix ''#'' rel then Some (b\<lparr>u_fragment := Some (tl rel)\<rparr>) else None)
        else
          (let f = after CHR ''#'' rel;
               q = after CHR ''?'' (before CHR ''#'' rel);
               body = before CHR ''?'' (before CHR ''#'' rel)
           in if body = [] then
                (case q of
                  None \<Rightarrow> Some (b\<lparr>u_fragment := f\<rparr>)
                | Some q' \<Rightarrow> Some (b\<lparr>u_query := q, u_fragment := f\<rparr>))
              else if prefix ''//'' body then parse_hier (u_scheme b) body q f
              else if prefix ''/'' body then Some (b\<lparr>u_path := body, u_query := q, u_fragment := f\<rparr>)
              else Some (b\<lparr>u_path := merge_path (u_path b) body, u_query := q, u_fragment := f\<rparr>)))"

definition plain_url :: "url_record url_api" where
  "plain_url =
    \<lparr>url_new = parse_url, url_new_base = parse_url_base, url_pathname = u_path,
     url_set_pathname = set_pathname, url_href = href, url_opaque = u_opaque\<rparr>"

text \<open>
  A file name, as a relative reference: no path separator (slash or backslash), no control
  character, no space at either end, no scheme in front; and what stands before the first
  \<open>?\<close> or \<open>#\<close> is neither a dot segment, plain or percent-encoded, nor a drive letter
  written with \<open>|\<close>.
\<close>

definition dot_segments :: "string list" where
  "dot_segments =
    [''.'', ''..'', ''%2e'', ''%2E'', ''.%2e'', ''.%2E'', ''%2e.'', ''%2E.'',
     ''%2e%2e'', ''%2e%2E'', ''%2E%2e'', ''%2E%2E'']"

definition file_name :: "string \<Rightarrow> bool" where
  "file_name n =
    (let body = before CHR ''?'' (before CHR ''#'' n)
     in list_all (\<lambda>c. c \<noteq> CHR ''/'' \<and> c \<noteq> CHR 0x5C \<and> 32 \<le> (of_char c :: nat)) n \<and>
        \<not> prefix '' '' n \<and> \<not> suffix '' '' n \<and> \<not> has_scheme n \<and>
        \<not> List.member dot_segments body \<and>
        \<not> (length body = 2 \<and> body ! 1 = CHR ''|''))"

definition wf_url :: "url_record \<Rightarrow> bool" where
  "wf_url r =
    (is_scheme (u_scheme r) \<and>
     CHR ''?'' \<notin> set (u_path r) \<and> CHR ''#'' \<notin> set (u_path r) \<and>
     (case u_query r of None \<Rightarrow> True | Some q \<Rightarrow> CHR ''#'' \<notin> set q) \<and>
     (case u_authority r of
       Some a \<Rightarrow>
         \<not> u_opaque r \<and> CHR ''/'' \<notin> set a \<and> CHR ''?'' \<notin> set a \<and> CHR ''#'' \<notin> set a \<and>
         (u_path r = [] \<or> prefix ''/'' (u_path r)) \<and>
         (special (u_scheme r) \<longrightarrow> u_path r \<noteq> [] \<and> (a \<noteq> [] \<or> u_scheme r = ''file''))
     | None \<Rightarrow>
         \<not> special (u_scheme r) \<and>
         (if u_opaque r then \<not> prefix ''/'' (u_path r)
          else prefix ''/'' (u_path r) \<and> \<not> prefix ''//'' (u_path r))))"

section \<open>A concrete installed client\<close>

text \<open>
  Version 1.0.0 of \<open>App\<close> on Windows, fed from \<open>https://example.com/updates/\<close>, where
  the manifest of the concrete build is published. The patch served there is corrupt: its
  hash is not the one the manifest records. \<open>attempted_disk\<close> holds the record of an update
  attempted from version 1.0.0.
\<close>

definition demo_attempt :: json where
  "demo_attempt =
    JObj [(''isDelta'', JBool True), (''attemptedVersion'', JStr ''2.0.0''),
          (''appVersion'', JStr ''1.0.0''), (''timestamp'', JNum 1700000000000),
          (''timeHuman'', JStr ''Tue Nov 14 2023'')]"

definition demo_host :: "url_record host" where
  "demo_host =
    \<lparr>app_version = ''1.0.0'', process_platform = ''win32'',
     semver_prerelease = (\<lambda>v. None),
     url_class = plain_url,
     fetch = (\<lambda>u. if u = ''https://example.com/updates/delta-win.json''
                   then Fetched 200
                     (Some (JObj (demo_manifest ''nsis patch c/data/1.0.0 c/data/2.0.0 signed'')))
                   else Fetched 404 None),
     net = (\<lambda>u. if u = ''https://example.com/updates/App-1.0.0-to-2.0.0-delta.exe''
                 then Response 200 None (Complete ''corrupt'')
                 else Response 404 None (Complete [])),
     writable = (\<lambda>p. True),
     crypto_sha256 = (\<lambda>b. ''sha '' @ b),
     readJSON = (\<lambda>b. if b = ''attempt'' then Some demo_attempt else None)\<rparr>"

definition demo_updater :: updater where
  "demo_updater =
    \<lparr>hostURL = Some ''https://example.com/updates/'', deltaHolderPath = ''local/deltas'',
     macUpdaterPath = ''local/mac-updater'', hpatchzPath = ''local/hpatchz'',
     updateDetailsJSON = ''local/update-details.json''\<rparr>"

definition demo_info :: update_info where
  "demo_info = \<lparr>info_version = ''2.0.0'', releaseDate = ''2024-01-01''\<rparr>"

definition attempted_disk :: disk where
  "attempted_disk = [''local/update-details.json'' \<mapsto> File ''attempt'']"

text \<open>A server that redirects the patch to a location which answers 404.\<close>

definition redirect_to_missing :: "string \<Rightarrow> reply" where
  "redirect_to_missing u =
    (if u = ''https://host/a.delta''
     then Response 302 (Some ''https://cdn/a.delta'') (Complete [])
     else Response 404 None (Complete ''Not Found''))"

section \<open>Properties of the HistoryResolver\<close>

lemma includes_iff: "str_includes s t \<longleftrightarrow> (\<exists>ps ss. s = ps @ t @ ss)"
proof (induction s)
  case Nil
  then show ?case by auto
next
  case (Cons c cs)
  show ?case
  proof
    assume "str_includes (c # cs) t"
    then consider "prefix t (c # cs)" | "str_includes cs t" by auto
    then show "\<exists>ps ss. c # cs = ps @ t @ ss"
    proof cases
      case 1
      then obtain ss where "c # cs = t @ ss" by (auto simp: prefix_def)
      then have "c # cs = [] @ t @ ss" by simp
      then show ?thesis by blast
    next
      case 2
      with Cons.IH obtain ps ss where "cs = ps @ t @ ss" by blast
      then have "c # cs = (c # ps) @ t @ ss" by simp
      then show ?thesis by blast
    qed
  next
    assume "\<exists>ps ss. c # cs = ps @ t @ ss"
    then obtain ps ss where eq: "c # cs = ps @ t @ ss" by blast
    show "str_includes (c # cs) t"
    proof (cases ps)
      case Nil
      with eq have "prefix t (c # cs)" by (simp add: prefix_def)
      then show ?thesis by simp
    next
      case (Cons p ps')
      with eq have "cs = ps' @ t @ ss" by simp
      with Cons.IH have "str_includes cs t" by blast
      then show ?thesis by simp
    qed
  qed
qed

text \<open>
  Claim C7, as the specification states it: on the release list
  \<open>[{1.0.0, .exe}, {1.1.0, .exe}, {1.1.0, -Setup.exe}, {1.2.0, -delta.exe}]\<close> with platform
  \<open>win\<close> and target \<open>nsis\<close> the resolver returns only version 1.1.0. The code keeps
  1.0.0 as well: it filters assets by name only and never drops a release by its version.
\<close>

theorem getPreviousReleases_scenario_not_only_1_1_0:
  "getPreviousReleases (Inr scenario_releases) ''win'' ''nsis''
     \<noteq> Inr [\<lparr>version = ''1.1.0'', url = ''https://host/dl/1.1.0/App-1.1.0.exe''\<rparr>]"
  by (simp add: getPreviousReleases_def scenario_releases_def endsWith_def suffix_to_prefix Let_def)

text \<open>
  Claim C7, amended: for that release list, whatever the asset URLs are as long as they
  carry the stated suffixes (the two plain ones being tagged and neither \<open>-Setup\<close> nor
  \<open>-delta\<close> variants), the resolver returns exactly two entries, 1.0.0 and 1.1.0 with their
  plain \<open>.exe\<close> assets, in the order of the index; the \<open>-Setup\<close> and \<open>-delta\<close> variants
  are excluded.
\<close>

theorem getPreviousReleases_scenario:
  assumes "endsWith a1 ''.exe''" "\<not> endsWith a1 ''-delta.exe''"
      "\<not> str_includes a1 ''-Setup''" "\<not> str_includes a1 ''untagged''"
    and "endsWith a2 ''.exe''" "\<not> endsWith a2 ''-delta.exe''"
      "\<not> str_includes a2 ''-Setup''" "\<not> str_includes a2 ''untagged''"
    and "endsWith a3 ''-Setup.exe''"
    and "endsWith a4 ''-delta.exe''"
  shows "getPreviousReleases
           (Inr [\<lparr>tag_name = ''1.0.0'', assets = [a1]\<rparr>, \<lparr>tag_name = ''1.1.0'', assets = [a2]\<rparr>,
                 \<lparr>tag_name = ''1.1.0'', assets = [a3]\<rparr>, \<lparr>tag_name = ''1.2.0'', assets = [a4]\<rparr>])
           ''win'' ''nsis''
         = Inr [\<lparr>version = ''1.0.0'', url = a1\<rparr>, \<lparr>version = ''1.1.0'', url = a2\<rparr>]"
proof -
  from assms(9) obtain ps where "a3 = ps @ ''-Setup.exe''"
    by (auto simp: endsWith_def suffix_def)
  then have "a3 = ps @ ''-Setup'' @ ''.exe''" by simp
  then have a3: "str_includes a3 ''-Setup''" unfolding includes_iff by blast
  show ?thesis
    using assms(1-8,10) a3 by (simp add: getPreviousReleases_def Let_def)
qed

theorem getPreviousReleases_scenario_witness:
  "getPreviousReleases (Inr scenario_releases) ''win'' ''nsis''
     = Inr [\<lparr>version = ''1.0.0'', url = ''https://host/dl/1.0.0/App-1.0.0.exe''\<rparr>,
            \<lparr>version = ''1.1.0'', url = ''https://host/dl/1.1.0/App-1.1.0.exe''\<rparr>]"
  using getPreviousReleases_scenario
    [of "''https://host/dl/1.0.0/App-1.0.0.exe''" "''https://host/dl/1.1.0/App-1.1.0.exe''"
        "''https://host/dl/1.1.0/App-1.1.0-Setup.exe''" "''https://host/dl/1.2.0/App-1.2.0-delta.exe''"]
  by (simp add: scenario_releases_def endsWith_def suffix_to_prefix)

section \<open>Properties of the build pipeline\<close>

subsection \<open>The store and the counters\<close>

lemma readFile_writeFile:
  "readFile (writeFile p b w) q = (if q = p then Some b else readFile w q)"
  by (simp add: readFile_def writeFile_def update_conv')

lemma counters_writeFile [simp]:
  "downloads (writeFile p b w) = downloads w" "extractions (writeFile p b w) = extractions w"
  by (simp_all add: writeFile_def)

lemma counters_putFile [simp]:
  "downloads (putFile p c w) = downloads w" "extractions (putFile p c w) = extractions w"
  by (simp_all add: putFile_def split: option.splits)

lemma counters_emptyDir [simp]:
  "downloads (emptyDir d w) = downloads w" "extractions (emptyDir d w) = extractions w"
  by (simp_all add: emptyDir_def)





lemma build_counters:
  "downloads (snd (DeltaInstallerBuilder_build T d w)) = downloads w \<and>
   extractions (snd (DeltaInstallerBuilder_build T d w)) = extractions w"
  by (simp add: DeltaInstallerBuilder_build_def split: prod.splits option.splits)

lemma buildInstallers_spec:
  "buildInstallers T opts deltaDir outputDir prs j w = Inr (j', w') \<Longrightarrow>
     j' = fold (\<lambda>k. AList.update k (pathEntry (installerFileName opts) k)) (map versionKey prs) j \<and>
     downloads w' = downloads w \<and> extractions w' = extractions w"
proof (induction prs arbitrary: j w)
  case Nil
  then show ?case by simp
next
  case (Cons r prs)
  then show ?case
    by (auto simp: Let_def build_counters pathEntry_def split: sum.splits dest!: Cons.IH)
qed

lemma fs_move_counters:
  "fs_move a b w = Inr w' \<Longrightarrow> downloads w' = downloads w \<and> extractions w' = extractions w"
  by (auto simp: fs_move_def split: option.splits if_splits)

lemma moveDeltas_spec:
  "moveDeltas opts deltaDir outputDir prs j w = Inr (j', w') \<Longrightarrow>
     j' = fold (\<lambda>k. AList.update k (pathEntry (deltaFileName opts) k)) (map versionKey prs) j \<and>
     downloads w' = downloads w \<and> extractions w' = extractions w"
proof (induction prs arbitrary: j w)
  case Nil
  then show ?case by simp
next
  case (Cons r prs)
  then show ?case
    by (auto simp: pathEntry_def split: sum.splits dest!: Cons.IH fs_move_counters)
qed


subsection \<open>JSON objects\<close>

lemma fold_update_distinct:
  "distinct (map fst j) \<Longrightarrow> distinct (map fst (fold (\<lambda>k. AList.update k (e k)) ks j))"
  by (induction ks arbitrary: j) (auto simp: distinct_update)

lemma fold_update_keys:
  "fst ` set (fold (\<lambda>k. AList.update k (e k)) ks j) = set ks \<union> fst ` set j"
  by (induction ks arbitrary: j) (auto simp: dom_update)

lemma fold_update_map_of:
  "map_of (fold (\<lambda>k. AList.update k (e k)) ks j) k =
     (if k \<in> set ks then Some (e k) else map_of j k)"
  by (induction ks arbitrary: j) (auto simp: update_conv')

lemma update_existing_map:
  "distinct (map fst j) \<Longrightarrow> k \<in> fst ` set j \<Longrightarrow>
     AList.update k (F (map_of j k)) j =
     map (\<lambda>(k', x). if k' = k then (k', F (Some x)) else (k', x)) j"
proof (induction j)
  case Nil
  then show ?case by simp
next
  case (Cons a j)
  obtain k0 x0 where a: "a = (k0, x0)" by (cases a)
  show ?case
  proof (cases "k0 = k")
    case True
    with Cons.prems a have "k \<notin> fst ` set j" by auto
    then have "map (\<lambda>(k', x). if k' = k then (k', F (Some x)) else (k', x)) j = j"
      by (induction j) auto
    with True a show ?thesis by simp
  next
    case False
    with Cons.prems a have "distinct (map fst j)" "k \<in> fst ` set j" by auto
    from Cons.IH[OF this] False a show ?thesis by simp
  qed
qed

lemma withSha_idem: "withSha T w out name k (withSha T w out name k x) = withSha T w out name k x"
  by (simp add: withSha_def spread_def)

lemma computeChecksums_spec:
  assumes "computeChecksums T name out prs j w = Inr j'"
    and "distinct (map fst j)" and "versionKey ` set prs \<subseteq> fst ` set j"
  shows "(\<forall>r \<in> set prs. readFile w (path_join out (name (versionKey r))) \<noteq> None) \<and>
         j' = map (\<lambda>(k, x). if k \<in> versionKey ` set prs
                             then (k, withSha T w out name k x) else (k, x)) j"
  using assms
proof (induction prs arbitrary: j)
  case Nil
  then show ?case by simp
next
  case (Cons r prs)
  let ?k = "versionKey r"
  let ?p = "path_join out (name ?k)"
  from Cons.prems(1) obtain c where c: "readFile w ?p = Some c"
    by (auto simp: utils_computeSHA256_def split: option.splits sum.splits)
  let ?F = "\<lambda>v. JObj (AList.update ''sha256'' (JStr (sha256 T c)) (spread v))"
  let ?j1 = "AList.update ?k (?F (map_of j ?k)) j"
  from Cons.prems(1) c have rest: "computeChecksums T name out prs ?j1 w = Inr j'"
    by (simp add: utils_computeSHA256_def)
  from Cons.prems(3) have kin: "?k \<in> fst ` set j" by simp
  have j1: "?j1 = map (\<lambda>(k', x). if k' = ?k then (k', ?F (Some x)) else (k', x)) j"
    by (rule update_existing_map[OF Cons.prems(2) kin])
  have d1: "distinct (map fst ?j1)" using Cons.prems(2) by (simp add: distinct_update)
  have k1: "versionKey ` set prs \<subseteq> fst ` set ?j1" using Cons.prems(3) by (auto simp: dom_update)
  from Cons.IH[OF rest d1 k1]
  have files: "\<forall>r \<in> set prs. readFile w (path_join out (name (versionKey r))) \<noteq> None"
    and j': "j' = map (\<lambda>(k, x). if k \<in> versionKey ` set prs
                             then (k, withSha T w out name k x) else (k, x)) ?j1"
    by blast+
  have F: "?F (Some x) = withSha T w out name ?k x" for x
    by (simp add: withSha_def c)
  have "j' = map (\<lambda>(k, x). if k \<in> versionKey ` set (r # prs)
                             then (k, withSha T w out name k x) else (k, x)) j"
    unfolding j' j1 by (auto simp: F withSha_idem)
  with files c show ?case by simp
qed


subsection \<open>Publishing\<close>

lemma publishedName_not_manifest:
  "path_join out (publishedName opts k) \<noteq> manifestPath opts out"
proof
  assume "path_join out (publishedName opts k) = manifestPath opts out"
  then have "publishedName opts k = ''delta-'' @ platform opts @ ''.json''"
    by (simp add: path_join_def manifestPath_def)
  then have "last (publishedName opts k) = last (''delta-'' @ platform opts @ ''.json'')"
    by simp
  then show False
    by (simp add: publishedName_def installerFileName_def deltaFileName_def split: if_splits)
qed

lemma publish_spec:
  assumes "publish T opts deltaDir (outputDirOf opts) prs w = Inr (produced, w')"
  shows "readFile w' (manifestPath opts (outputDirOf opts))
           = Some (JSON_stringify T (manifestOf T opts (map versionKey prs) w'))"
    and "\<forall>r \<in> set prs.
           readFile w' (path_join (outputDirOf opts) (publishedName opts (versionKey r))) \<noteq> None"
    and "downloads w' = downloads w" and "extractions w' = extractions w"
proof -
  let ?out = "outputDirOf opts"
  let ?nm = "publishedName opts"
  let ?ks = "map versionKey prs"
  let ?j1 = "fold (\<lambda>k. AList.update k (pathEntry ?nm k)) ?ks (initialDeltaJSON opts)"
  from assms obtain j1 w1 j2 where
    first: "(if platform opts = ''win''
             then buildInstallers T opts deltaDir ?out prs (initialDeltaJSON opts) w
             else moveDeltas opts deltaDir ?out prs (initialDeltaJSON opts) w) = Inr (j1, w1)"
    and sums: "computeChecksums T ?nm ?out prs j1 w1 = Inr j2"
    and w': "w' = writeFile (manifestPath opts ?out) (JSON_stringify T j2) w1"
    by (auto simp: publish_def publishedName_def Let_def split: sum.splits if_splits)
  from first have j1: "j1 = ?j1" and cnt: "downloads w1 = downloads w" "extractions w1 = extractions w"
    by (auto simp: publishedName_def split: if_splits dest: buildInstallers_spec moveDeltas_spec)
  have d1: "distinct (map fst ?j1)"
    by (rule fold_update_distinct) (simp add: initialDeltaJSON_def)
  have k1: "versionKey ` set prs \<subseteq> fst ` set ?j1"
    by (auto simp: fold_update_keys)
  from computeChecksums_spec[OF sums[unfolded j1] d1 k1]
  have files1: "\<forall>r \<in> set prs. readFile w1 (path_join ?out (?nm (versionKey r))) \<noteq> None"
    and j2: "j2 = map (\<lambda>(k, x). if k \<in> versionKey ` set prs
                             then (k, withSha T w1 ?out ?nm k x) else (k, x)) ?j1"
    by blast+
  have same: "readFile w' (path_join ?out (?nm k)) = readFile w1 (path_join ?out (?nm k))" for k
    by (simp add: w' readFile_writeFile publishedName_not_manifest)
  have sha: "withSha T w' ?out ?nm k x = withSha T w1 ?out ?nm k x" for k x
    by (simp add: withSha_def same)
  have val: "x = pathEntry ?nm k" if "(k, x) \<in> set ?j1" "k \<in> versionKey ` set prs" for k x
  proof -
    from that(1) d1 have "map_of ?j1 k = Some x" by simp
    moreover from that(2) have "map_of ?j1 k = Some (pathEntry ?nm k)"
      by (simp add: fold_update_map_of)
    ultimately show ?thesis by simp
  qed
  have "j2 = manifestOf T opts ?ks w'"
    unfolding j2 manifestOf_def
  proof (rule map_cong[OF refl])
    fix e assume e: "e \<in> set ?j1"
    obtain k x where kx: "e = (k, x)" by (cases e)
    show "(case e of (k, x) \<Rightarrow> if k \<in> versionKey ` set prs
                             then (k, withSha T w1 ?out ?nm k x) else (k, x)) =
          (case e of (k, x) \<Rightarrow> if List.member ?ks k
                   then (k, withSha T w' ?out ?nm k (pathEntry ?nm k)) else (k, x))"
    proof (cases "k \<in> versionKey ` set prs")
      case True
      with e kx val have "x = pathEntry ?nm k" by blast
      with True kx show ?thesis by (simp add: sha)
    next
      case False
      with kx show ?thesis by simp
    qed
  qed
  then show "readFile w' (manifestPath opts ?out) = Some (JSON_stringify T (manifestOf T opts ?ks w'))"
    by (simp add: w' readFile_writeFile)
  from files1 same show "\<forall>r \<in> set prs. readFile w' (path_join ?out (?nm (versionKey r))) \<noteq> None"
    by simp
  from cnt show "downloads w' = downloads w" "extractions w' = extractions w"
    by (simp_all add: w')
qed


lemma ensureDir_Inr: "ensureDir T d w = Inr w' \<Longrightarrow> w' = w"
  by (auto simp: ensureDir_def split: option.splits if_splits)


lemma createAllDeltas_stages:
  assumes "createAllDeltas T opts w = Inr (Some produced, w')"
  shows "\<exists>rels w2 w3 w4 w5.
      opt_getPreviousReleases opts (platform opts) (target opts) = Inr rels \<and> rels \<noteq> [] \<and>
      downloadInstallers T (path_join (cacheDir opts) ''data'')
        (preparePreviousReleases T (take 10 rels)) w = Inr w2 \<and>
      extractInstallers T opts (path_join (cacheDir opts) ''data'')
        (preparePreviousReleases T (take 10 rels)) w2 = Inr w3 \<and>
      extract7zip T (latestReleaseFilePath opts)
        (path_join (path_join (cacheDir opts) ''data'') (latestVersion opts)) w3 = Inr w4 \<and>
      computeDeltas T opts (path_join (cacheDir opts) ''data'') (path_join (cacheDir opts) ''deltas'')
        (path_join (path_join (cacheDir opts) ''data'') (latestVersion opts))
        (preparePreviousReleases T (take 10 rels)) (emptyDir (outputDirOf opts) w4) = Inr w5 \<and>
      publish T opts (path_join (cacheDir opts) ''deltas'') (outputDirOf opts)
        (preparePreviousReleases T (take 10 rels)) w5 = Inr (produced, w')"
  using assms
  by (auto simp: createAllDeltas_def Let_def split: sum.splits if_splits dest!: ensureDir_Inr)

lemma manifestOf_keys:
  "map fst (manifestOf T opts ks w) =
     map fst (fold (\<lambda>k. AList.update k (pathEntry (publishedName opts) k)) ks (initialDeltaJSON opts))"
  by (simp add: manifestOf_def case_prod_unfold comp_def)

lemma manifestOf_distinct: "distinct (map fst (manifestOf T opts ks w))"
  unfolding manifestOf_keys by (rule fold_update_distinct) (simp add: initialDeltaJSON_def)

lemma manifestOf_entry:
  assumes "(k, x) \<in> set (versionEntries (manifestOf T opts ks w))"
  shows "k \<in> set ks \<and>
         x = withSha T w (outputDirOf opts) (publishedName opts) k (pathEntry (publishedName opts) k)"
proof -
  let ?j1 = "fold (\<lambda>k. AList.update k (pathEntry (publishedName opts) k)) ks (initialDeltaJSON opts)"
  from assms have k: "k \<noteq> ''productName''" "k \<noteq> ''latestVersion''"
    and mem: "(k, x) \<in> set (manifestOf T opts ks w)"
    by (auto simp: versionEntries_def)
  from mem have "k \<in> fst ` set (manifestOf T opts ks w)" by force
  then have "k \<in> set (map fst (manifestOf T opts ks w))" by simp
  then have "k \<in> set (map fst ?j1)" by (simp only: manifestOf_keys)
  then have "k \<in> set ks \<union> fst ` set (initialDeltaJSON opts)"
    using fold_update_keys[of "pathEntry (publishedName opts)" ks "initialDeltaJSON opts"] by simp
  with k have ks: "k \<in> set ks" by (auto simp: initialDeltaJSON_def)
  from mem ks show ?thesis by (auto simp: manifestOf_def split: if_splits)
qed

lemma versionEntries_length:
  "length (versionEntries (manifestOf T opts ks w)) \<le> length ks"
proof -
  let ?E = "versionEntries (manifestOf T opts ks w)"
  have "distinct (map fst ?E)"
    unfolding versionEntries_def using manifestOf_distinct[of T opts ks w]
    by (rule distinct_map_filter)
  then have "length ?E = card (fst ` set ?E)"
    by (metis distinct_card length_map set_map)
  also have "\<dots> \<le> card (set ks)"
  proof (rule card_mono)
    show "fst ` set ?E \<subseteq> set ks" using manifestOf_entry[of _ _ T opts ks w] by auto
  qed simp
  also have "\<dots> \<le> length ks" by (rule card_length)
  finally show ?thesis .
qed

subsection \<open>The concrete build, evaluated\<close>

lemmas pipeline_defs =
  createAllDeltas_def Let_def ensureDir_def path_join_def preparePreviousReleases_def
  fileNameFromUrl_def basename_def downloadFileIfNotExists_def existsSync_def
  utils_downloadFile_def writeFile_def expectedBinary_def extract7zip_def emptyDir_def
  readFile_def outputDirOf_def deltaFileName_def str_of_def versionKey_def createDelta_def
  publish_def installerFileName_def DeltaInstallerBuilder_build_def putFile_def
  initialDeltaJSON_def utils_computeSHA256_def spread_def manifestPath_def readdirSync_def

lemmas demo_defs =
  demo_tools_def demo_options_def demo_releases_def cold_world_def warm_world_def
  rerun_world_def demo_produced_def demo_manifest_def demo_stringify_def

lemma demo_first_run:
  "createAllDeltas demo_tools demo_options cold_world = Inr (Some demo_produced, warm_world)"
  by (simp add: pipeline_defs demo_defs)



subsection \<open>Manifest keys and failed diffs\<close>

text \<open>
  Whenever a manifest is written, its keys are \<open>productName\<close>, \<open>latestVersion\<close> and
  the version of every prior release of the (truncated) list: nothing in the pipeline
  looks at the outcome of the diff tool.
\<close>

lemma manifest_lists_every_prior_version:
  assumes "opt_getPreviousReleases opts (platform opts) (target opts) = Inr rels"
    and "createAllDeltas T opts w = Inr (Some produced, w')"
  shows "\<exists>deltaJSON.
      readFile w' (manifestPath opts (outputDirOf opts)) = Some (JSON_stringify T deltaJSON) \<and>
      fst ` set deltaJSON =
        {''productName'', ''latestVersion''} \<union>
        versionKey ` set (preparePreviousReleases T (take 10 rels))"
proof -
  let ?prs = "preparePreviousReleases T (take 10 rels)"
  let ?M = "manifestOf T opts (map versionKey ?prs) w'"
  from createAllDeltas_stages[OF assms(2)] assms(1) obtain w5 where
    pub: "publish T opts (path_join (cacheDir opts) ''deltas'') (outputDirOf opts) ?prs w5
            = Inr (produced, w')"
    by auto
  have "fst ` set ?M = set (map fst ?M)" by simp
  also have "\<dots> = fst ` set (fold (\<lambda>k. AList.update k (pathEntry (publishedName opts) k))
                        (map versionKey ?prs) (initialDeltaJSON opts))"
    by (simp only: manifestOf_keys set_map)
  also have "\<dots> = {''productName'', ''latestVersion''} \<union> versionKey ` set ?prs"
    by (auto simp: fold_update_keys initialDeltaJSON_def)
  finally have "fst ` set ?M = {''productName'', ''latestVersion''} \<union> versionKey ` set ?prs" .
  with publish_spec(1)[OF pub] show ?thesis by blast
qed

text \<open>
  Claim C1 says that a version whose diff failed is left out of the manifest. The code
  does not do this: \<open>createDelta\<close> answers \<open>true\<close> for any exit status, its answer is
  discarded, and every prior version is written into the manifest. Evaluated on the
  concrete build with a diff tool that exits with status 1 and writes nothing:
  \<open>createDelta\<close> still reports success; where a patch file of an earlier build is still in
  the cache, version 1.0.0 is listed in the manifest, with an installer made from that stale
  patch; where there is none, the whole run ends in an exception (the checksum of the
  missing installer) and no manifest is written.
\<close>

theorem failed_diff_not_omitted:
  "createDelta failing_diff_tools ''c/data/1.0.0'' ''c/data/2.0.0''
      ''c/deltas/App-1.0.0-to-2.0.0.delta'' stale_world = (Some True, stale_world) \<and>
   (case createAllDeltas failing_diff_tools demo_options stale_world of
      Inl e \<Rightarrow> False
    | Inr (produced, w) \<Rightarrow>
        readFile w (manifestPath demo_options (outputDirOf demo_options)) =
          Some (JSON_stringify failing_diff_tools (demo_manifest ''nsis stale patch signed''))) \<and>
   createAllDeltas failing_diff_tools demo_options cold_world = Inl ENOENT"
  by (simp add: failing_diff_tools_def stale_world_def pipeline_defs demo_defs)

subsection \<open>Size and integrity of the manifest\<close>

text \<open>
  Claim C4: for every list of \<open>N\<close> prior releases supplied by the release index, the
  manifest written by \<open>createAllDeltas\<close> has at most \<open>min N 10\<close> version entries, and
  each entry carries a path naming a file that exists in the output directory and a
  \<open>sha256\<close> field equal to the hash of that file.
\<close>

theorem manifest_entries_bounded_and_checksummed:
  assumes "opt_getPreviousReleases opts (platform opts) (target opts) = Inr rels"
    and "createAllDeltas T opts w = Inr (Some produced, w')"
  shows "\<exists>deltaJSON.
      readFile w' (manifestPath opts (outputDirOf opts)) = Some (JSON_stringify T deltaJSON) \<and>
      length (versionEntries deltaJSON) \<le> min (length rels) 10 \<and>
      list_all (\<lambda>(k, x). \<exists>c.
          x = JObj [(''path'', JStr (publishedName opts k)), (''sha256'', JStr (sha256 T c))] \<and>
          readFile w' (path_join (outputDirOf opts) (publishedName opts k)) = Some c)
        (versionEntries deltaJSON)"
proof -
  let ?prs = "preparePreviousReleases T (take 10 rels)"
  let ?ks = "map versionKey ?prs"
  let ?M = "manifestOf T opts ?ks w'"
  from createAllDeltas_stages[OF assms(2)] assms(1) obtain w5 where
    pub: "publish T opts (path_join (cacheDir opts) ''deltas'') (outputDirOf opts) ?prs w5
            = Inr (produced, w')"
    by auto
  note spec = publish_spec[OF pub]
  have len: "length (versionEntries ?M) \<le> min (length rels) 10"
    using versionEntries_length[of T opts ?ks w'] by (simp add: preparePreviousReleases_def)
  have ent: "\<exists>c. x = JObj [(''path'', JStr (publishedName opts k)), (''sha256'', JStr (sha256 T c))] \<and>
          readFile w' (path_join (outputDirOf opts) (publishedName opts k)) = Some c"
    if "(k, x) \<in> set (versionEntries ?M)" for k x
  proof -
    from manifestOf_entry[OF that] have k: "k \<in> set ?ks"
      and x: "x = withSha T w' (outputDirOf opts) (publishedName opts) k
                    (pathEntry (publishedName opts) k)"
      by blast+
    from k spec(2) obtain c where
      "readFile w' (path_join (outputDirOf opts) (publishedName opts k)) = Some c" by auto
    with x show ?thesis by (simp add: withSha_def pathEntry_def spread_def)
  qed
  have "list_all (\<lambda>(k, x). \<exists>c.
          x = JObj [(''path'', JStr (publishedName opts k)), (''sha256'', JStr (sha256 T c))] \<and>
          readFile w' (path_join (outputDirOf opts) (publishedName opts k)) = Some c)
        (versionEntries ?M)"
    unfolding list_all_iff using ent by auto
  with spec(1) len show ?thesis by blast
qed

theorem manifest_entries_bounded_and_checksummed_witness:
  "\<exists>deltaJSON.
      readFile warm_world (manifestPath demo_options (outputDirOf demo_options))
        = Some (JSON_stringify demo_tools deltaJSON) \<and>
      length (versionEntries deltaJSON) \<le> min (length demo_releases) 10 \<and>
      list_all (\<lambda>(k, x). \<exists>c.
          x = JObj [(''path'', JStr (publishedName demo_options k)),
                    (''sha256'', JStr (sha256 demo_tools c))] \<and>
          readFile warm_world (path_join (outputDirOf demo_options) (publishedName demo_options k))
            = Some c)
        (versionEntries deltaJSON)"
proof -
  have rels: "opt_getPreviousReleases demo_options (platform demo_options) (target demo_options)
                = Inr demo_releases"
    by (simp add: demo_options_def)
  show ?thesis
    using manifest_entries_bounded_and_checksummed[OF rels demo_first_run] .
qed

subsection \<open>No usable release\<close>

text \<open>
  Claim C5, as the specification states it: if the release index is unreachable,
  \<open>createAllDeltas\<close> returns \<open>null\<close> and propagates no exception. The three
  \<open>ensureDirSync\<close> calls on the cache directories come before the \<open>try\<close> around the
  release index: with a regular file where the cache directory should be, the first of
  them throws \<open>EEXIST\<close>, and so does \<open>createAllDeltas\<close>, whatever the index answers.
\<close>

theorem createAllDeltas_throws_on_blocked_cache:
  "ensureDir demo_tools (cacheDir offline_options) blocked_world = Inl EEXIST \<and>
   createAllDeltas demo_tools offline_options blocked_world = Inl EEXIST \<and>
   createAllDeltas demo_tools
     (demo_options\<lparr>opt_getPreviousReleases := (\<lambda>p t. Inr [])\<rparr>) blocked_world = Inl EEXIST"
  by (simp add: createAllDeltas_def ensureDir_def readFile_def blocked_world_def
        offline_options_def demo_options_def Let_def)

text \<open>
  Claim C5, amended: if the cache directory and its \<open>data\<close> and \<open>deltas\<close>
  subdirectories exist or can be created, and the release index is unreachable
  (\<open>getPreviousReleases\<close> throws) or returns no release, then \<open>createAllDeltas\<close> returns
  \<open>null\<close> (here \<open>None\<close>, distinct from any file list), leaves the store as it was, so
  writes no manifest, and throws nothing.
\<close>

theorem createAllDeltas_no_releases:
  assumes "opt_getPreviousReleases opts (platform opts) (target opts) = Inl e \<or>
           opt_getPreviousReleases opts (platform opts) (target opts) = Inr []"
    and "ensureDir T (cacheDir opts) w = Inr w"
    and "ensureDir T (path_join (cacheDir opts) ''data'') w = Inr w"
    and "ensureDir T (path_join (cacheDir opts) ''deltas'') w = Inr w"
  shows "createAllDeltas T opts w = Inr (None, w)"
  using assms by (auto simp: createAllDeltas_def Let_def)

theorem createAllDeltas_no_releases_witness:
  "createAllDeltas demo_tools offline_options cold_world = Inr (None, cold_world) \<and>
   createAllDeltas demo_tools
     (demo_options\<lparr>opt_getPreviousReleases := (\<lambda>p t. Inr [])\<rparr>) cold_world
     = Inr (None, cold_world)"
proof -
  have dirs: "ensureDir demo_tools d cold_world = Inr cold_world"
    if "d \<in> {''c'', ''c/data'', ''c/deltas''}" for d
    using that by (auto simp: ensureDir_def readFile_def cold_world_def demo_tools_def)
  have c: "cacheDir offline_options = ''c''"
    "cacheDir (demo_options\<lparr>opt_getPreviousReleases := (\<lambda>p t. Inr [])\<rparr>) = ''c''"
    by (simp_all add: offline_options_def demo_options_def)
  have down: "opt_getPreviousReleases offline_options (platform offline_options)
                (target offline_options) = Inl ReleaseIndexError \<or>
              opt_getPreviousReleases offline_options (platform offline_options)
                (target offline_options) = Inr []"
    by (simp add: offline_options_def)
  have none: "opt_getPreviousReleases (demo_options\<lparr>opt_getPreviousReleases := (\<lambda>p t. Inr [])\<rparr>)
                (platform demo_options) (target demo_options) = Inl ReleaseIndexError \<or>
              opt_getPreviousReleases (demo_options\<lparr>opt_getPreviousReleases := (\<lambda>p t. Inr [])\<rparr>)
                (platform demo_options) (target demo_options) = Inr []"
    by simp
  from createAllDeltas_no_releases[OF down, of demo_tools cold_world]
       createAllDeltas_no_releases
         [of "demo_options\<lparr>opt_getPreviousReleases := (\<lambda>p t. Inr [])\<rparr>" ReleaseIndexError
             demo_tools cold_world]
       none dirs c
  show ?thesis by (simp add: path_join_def)
qed

subsection \<open>Two runs side by side\<close>




















subsection \<open>A second run on a warm cache\<close>

text \<open>The diff tool of the build with the misplaced artifact reads only the two directories.\<close>

lemma reading_diff_tools_local:
  "(\<And>p. prefix (old @ ''/'') p \<or> prefix (new @ ''/'') p \<Longrightarrow> map_of fs p = map_of fs' p) \<Longrightarrow>
     hdiffz reading_diff_tools fs old new out = hdiffz reading_diff_tools fs' old new out"
  by (simp add: reading_diff_tools_def demo_tools_def)




section \<open>Properties of \<open>plain_url\<close> and of the feed URLs\<close>

subsection \<open>Parsing a serialised URL gives the URL back\<close>

lemma before_append: "c \<notin> set a \<Longrightarrow> before c (a @ c # b) = a"
  by (induction a) (auto simp: before_def)

lemma before_append2: "c \<notin> set a \<Longrightarrow> before c (a @ b) = a @ before c b"
  by (induction a) (auto simp: before_def)

lemma after_append: "c \<notin> set a \<Longrightarrow> after c (a @ c # b) = Some b"
  by (induction a) (auto simp: after_def)

lemma before_none: "c \<notin> set a \<Longrightarrow> before c a = a"
  by (induction a) (auto simp: before_def)

lemma after_none: "c \<notin> set a \<Longrightarrow> after c a = None"
  by (simp add: after_def)

lemma before_free: "c \<notin> set (before c s)"
  unfolding before_def by (induction s) auto

lemma before_subset: "set (before c s) \<subseteq> set s"
  unfolding before_def by (induction s) auto

lemma after_Some: "after c s = Some t \<Longrightarrow> s = before c s @ c # t"
  by (induction s) (auto simp: after_def before_def split: if_splits)

lemma after_subset: "after c s = Some t \<Longrightarrow> set t \<subseteq> set s"
proof -
  assume "after c s = Some t"
  then have "s = before c s @ c # t" by (rule after_Some)
  then have "set s = set (before c s) \<union> insert c (set t)" by (metis set_append list.simps(15))
  then show ?thesis by auto
qed

lemma is_scheme_no_colon: "is_scheme s \<Longrightarrow> CHR '':'' \<notin> set s"
proof
  assume s: "is_scheme s" and mem: "CHR '':'' \<in> set s"
  have a: "CHR '':'' \<notin> set lowercase" by (simp add: lowercase_def)
  have b: "CHR '':'' \<notin> set (lowercase @ scheme_marks)"
    by (simp add: lowercase_def scheme_marks_def)
  from s obtain c cs where cs: "s = c # cs" "c \<in> set lowercase"
    "\<forall>x \<in> set cs. x \<in> set (lowercase @ scheme_marks)"
    by (cases s) (simp_all add: is_scheme_def list_all_iff)
  from mem cs(1) consider "CHR '':'' = c" | "CHR '':'' \<in> set cs" by auto
  then show False
  proof cases
    case 1
    with cs(2) a show False by simp
  next
    case 2
    with cs(3) b show False by blast
  qed
qed


lemma parse_hier_wf:
  assumes "parse_hier sch body q f = Some r" and "is_scheme sch"
    and "CHR ''?'' \<notin> set body" "CHR ''#'' \<notin> set body"
    and "case q of None \<Rightarrow> True | Some q' \<Rightarrow> CHR ''#'' \<notin> set q'"
  shows "wf_url r"
proof -
  let ?auth = "before CHR ''/'' (drop 2 body)"
  let ?p = "dropWhile (\<lambda>x. x \<noteq> CHR ''/'') (drop 2 body)"
  have sub: "set ?auth \<subseteq> set body" "set ?p \<subseteq> set body"
    using before_subset[of "CHR ''/''" "drop 2 body"] set_drop_subset[of 2 body]
      set_dropWhileD[of _ "\<lambda>x. x \<noteq> CHR ''/''" "drop 2 body"]
    by auto
  have p: "?p = [] \<or> prefix ''/'' ?p"
  proof (cases ?p)
    case Nil
    then show ?thesis by simp
  next
    case (Cons c cs)
    then have "?p \<noteq> []" by simp
    from hd_dropWhile[OF this] Cons show ?thesis by simp
  qed
  from assms(1) have guard: "\<not> (special sch \<and> ?auth = [] \<and> sch \<noteq> ''file'')"
    and r: "r = \<lparr>u_scheme = sch, u_authority = Some ?auth, u_opaque = False,
                   u_path = (if special sch \<and> ?p = [] then ''/'' else ?p),
                   u_query = q, u_fragment = f\<rparr>"
    by (auto simp: parse_hier_def Let_def split: if_splits)
  show ?thesis
    unfolding wf_url_def r using assms(2-5) sub p guard before_free[of "CHR ''/''" "drop 2 body"]
    by (auto split: option.splits)
qed

lemma parse_wf:
  assumes "parse_url s = Some r"
  shows "wf_url r"
proof -
  let ?sch = "before CHR '':'' s"
  let ?rest = "tl (dropWhile (\<lambda>x. x \<noteq> CHR '':'') s)"
  let ?f = "after CHR ''#'' ?rest"
  let ?r1 = "before CHR ''#'' ?rest"
  let ?q = "after CHR ''?'' ?r1"
  let ?body = "before CHR ''?'' ?r1"
  from assms have sch: "is_scheme ?sch"
    by (auto simp: parse_url_def split: if_splits)
  have r1: "CHR ''#'' \<notin> set ?r1" by (rule before_free)
  have body: "CHR ''?'' \<notin> set ?body" "CHR ''#'' \<notin> set ?body"
    using before_free[of "CHR ''?''" ?r1] before_subset[of "CHR ''?''" ?r1] r1 by auto
  have q: "case ?q of None \<Rightarrow> True | Some q' \<Rightarrow> CHR ''#'' \<notin> set q'"
    using r1 by (auto split: option.splits dest: after_subset)
  from assms sch consider
      (hier) "prefix ''//'' ?body" "parse_hier ?sch ?body ?q ?f = Some r"
    | (rooted) "\<not> prefix ''//'' ?body" "\<not> special ?sch" "prefix ''/'' ?body"
        "r = \<lparr>u_scheme = ?sch, u_authority = None, u_opaque = False, u_path = ?body,
              u_query = ?q, u_fragment = ?f\<rparr>"
    | (opaque) "\<not> special ?sch" "\<not> prefix ''/'' ?body"
        "r = \<lparr>u_scheme = ?sch, u_authority = None, u_opaque = True, u_path = ?body,
              u_query = ?q, u_fragment = ?f\<rparr>"
    by (auto simp: parse_url_def Let_def split: if_splits)
  then show ?thesis
  proof cases
    case hier
    from parse_hier_wf[OF hier(2) sch body q] show ?thesis .
  next
    case rooted
    then show ?thesis unfolding wf_url_def using sch body q by simp
  next
    case opaque
    then show ?thesis unfolding wf_url_def using sch body q by simp
  qed
qed


lemma dropWhile_skip:
  "c \<notin> set a \<Longrightarrow> dropWhile (\<lambda>x. x \<noteq> c) (a @ b) = dropWhile (\<lambda>x. x \<noteq> c) b"
  by (induction a) auto

lemma parse_href:
  assumes wf: "wf_url r"
  shows "parse_url (href r) = Some r"
proof -
  let ?A = "case u_authority r of None \<Rightarrow> [] | Some a \<Rightarrow> ''//'' @ a"
  let ?Q = "case u_query r of None \<Rightarrow> [] | Some q \<Rightarrow> CHR ''?'' # q"
  let ?F = "case u_fragment r of None \<Rightarrow> [] | Some f \<Rightarrow> CHR ''#'' # f"
  let ?rest = "?A @ u_path r @ ?Q @ ?F"
  have h: "href r = u_scheme r @ CHR '':'' # ?rest" by (simp add: href_def)
  from wf have sch: "is_scheme (u_scheme r)" by (simp add: wf_url_def)
  then have nocolon: "CHR '':'' \<notin> set (u_scheme r)" by (rule is_scheme_no_colon)
  have s1: "before CHR '':'' (href r) = u_scheme r" unfolding h using nocolon by (rule before_append)
  have s2: "CHR '':'' \<in> set (href r)" unfolding h by simp
  have s3: "tl (dropWhile (\<lambda>x. x \<noteq> CHR '':'') (href r)) = ?rest"
    using after_append[OF nocolon, of ?rest] unfolding h by (simp add: after_def)
  have AP: "CHR ''#'' \<notin> set (?A @ u_path r)" "CHR ''?'' \<notin> set (?A @ u_path r)"
    using wf by (auto simp: wf_url_def split: option.splits)
  have APQ: "CHR ''#'' \<notin> set (?A @ u_path r @ ?Q)"
    using wf AP by (auto simp: wf_url_def split: option.splits)
  have f1: "before CHR ''#'' ?rest = ?A @ u_path r @ ?Q \<and> after CHR ''#'' ?rest = u_fragment r"
  proof (cases "u_fragment r")
    case None
    with APQ show ?thesis by (simp add: before_none after_none)
  next
    case (Some f)
    have "?rest = (?A @ u_path r @ ?Q) @ CHR ''#'' # f" using Some by simp
    with APQ show ?thesis
      using before_append[of "CHR ''#''" "?A @ u_path r @ ?Q" f]
        after_append[of "CHR ''#''" "?A @ u_path r @ ?Q" f] Some
      by simp
  qed
  have q1: "before CHR ''?'' (?A @ u_path r @ ?Q) = ?A @ u_path r \<and>
            after CHR ''?'' (?A @ u_path r @ ?Q) = u_query r"
  proof (cases "u_query r")
    case None
    with AP show ?thesis by (simp add: before_none after_none)
  next
    case (Some q)
    have "?A @ u_path r @ ?Q = (?A @ u_path r) @ CHR ''?'' # q" using Some by simp
    with AP show ?thesis
      using before_append[of "CHR ''?''" "?A @ u_path r" q]
        after_append[of "CHR ''?''" "?A @ u_path r" q] Some
      by simp
  qed
  have start: "parse_url (href r) =
      (let body = ?A @ u_path r
       in if prefix ''//'' body then parse_hier (u_scheme r) body (u_query r) (u_fragment r)
          else if special (u_scheme r) then None
          else if prefix ''/'' body then
            Some \<lparr>u_scheme = u_scheme r, u_authority = None, u_opaque = False, u_path = body,
                  u_query = u_query r, u_fragment = u_fragment r\<rparr>
          else Some \<lparr>u_scheme = u_scheme r, u_authority = None, u_opaque = True, u_path = body,
                     u_query = u_query r, u_fragment = u_fragment r\<rparr>)"
    unfolding parse_url_def s1 s3 using s2 sch f1 q1 by (simp add: Let_def)
  show ?thesis
  proof (cases "u_authority r")
    case None
    with wf have ns: "\<not> special (u_scheme r)"
      and p: "if u_opaque r then \<not> prefix ''/'' (u_path r)
              else prefix ''/'' (u_path r) \<and> \<not> prefix ''//'' (u_path r)"
      by (simp_all add: wf_url_def)
    have nn: "\<not> prefix ''//'' (u_path r)"
    proof (cases "u_opaque r")
      case True
      with p have "\<not> prefix ''/'' (u_path r)" by simp
      then show ?thesis by (cases "u_path r") auto
    next
      case False
      with p show ?thesis by simp
    qed
    show ?thesis
      unfolding start using None ns p nn by (cases "u_opaque r") (simp_all add: Let_def)
  next
    case (Some a)
    with wf have a: "\<not> u_opaque r" "CHR ''/'' \<notin> set a"
      and p: "u_path r = [] \<or> prefix ''/'' (u_path r)"
      and sp: "special (u_scheme r) \<longrightarrow> u_path r \<noteq> [] \<and> (a \<noteq> [] \<or> u_scheme r = ''file'')"
      by (simp_all add: wf_url_def)
    have bp: "before CHR ''/'' (u_path r) = []"
      using p by (cases "u_path r") (auto simp: before_def)
    have auth: "before CHR ''/'' (a @ u_path r) = a"
      using before_append2[OF a(2), of "u_path r"] bp by simp
    have dp: "dropWhile (\<lambda>x. x \<noteq> CHR ''/'') (u_path r) = u_path r"
      using p by (cases "u_path r") auto
    have path: "dropWhile (\<lambda>x. x \<noteq> CHR ''/'') (a @ u_path r) = u_path r"
      using dropWhile_skip[OF a(2), of "u_path r"] dp by simp
    have "parse_hier (u_scheme r) (''//'' @ a @ u_path r) (u_query r) (u_fragment r) = Some r"
      unfolding parse_hier_def using auth path sp a(1) Some by (auto simp: Let_def)
    then show ?thesis unfolding start using Some by (simp add: Let_def)
  qed
qed

lemma encode_path_id:
  "CHR ''?'' \<notin> set v \<Longrightarrow> CHR ''#'' \<notin> set v \<Longrightarrow> encode_path v = v"
  by (induction v) (auto simp: encode_path_def)

lemma set_pathname_slash:
  assumes wf: "wf_url r" and hier: "\<not> u_opaque r" and open_end: "\<not> endsWith (u_path r) ''/''"
  shows "set_pathname (u_path r @ ''/'') r = r\<lparr>u_path := u_path r @ ''/''\<rparr>"
    and "wf_url (r\<lparr>u_path := u_path r @ ''/''\<rparr>)"
proof -
  from wf have clean: "CHR ''?'' \<notin> set (u_path r)" "CHR ''#'' \<notin> set (u_path r)"
    by (simp_all add: wf_url_def)
  from wf hier have p: "u_path r = [] \<or> prefix ''/'' (u_path r)"
    by (auto simp: wf_url_def split: option.splits)
  then have hd: "hd (u_path r @ ''/'') = CHR ''/''" by (cases "u_path r") auto
  have enc: "encode_path (u_path r @ ''/'') = u_path r @ ''/''"
    using clean by (intro encode_path_id) auto
  show "set_pathname (u_path r @ ''/'') r = r\<lparr>u_path := u_path r @ ''/''\<rparr>"
    using hier hd enc by (simp add: set_pathname_def)
  have notroot: "u_path r \<noteq> ''/''" using open_end by (auto simp: endsWith_def)
  have dbl: "\<not> prefix ''//'' (u_path r @ ''/'')" if "prefix ''/'' (u_path r)" "\<not> prefix ''//'' (u_path r)"
  proof -
    from that(1) obtain t where t: "u_path r = CHR ''/'' # t" by (cases "u_path r") auto
    with notroot obtain c t' where t': "t = c # t'" by (cases t) auto
    with t that(2) have "c \<noteq> CHR ''/''" by auto
    with t t' show ?thesis by simp
  qed
  show "wf_url (r\<lparr>u_path := u_path r @ ''/''\<rparr>)"
    using wf hier p dbl clean by (auto simp: wf_url_def split: option.splits)
qed


lemma merge_path_dir:
  assumes "endsWith base ''/''"
  shows "merge_path base rel = base @ rel"
proof -
  from assms obtain t where t: "base = t @ ''/''" by (auto simp: endsWith_def suffix_def)
  then show ?thesis by (simp add: merge_path_def)
qed

lemma resolve_file_name:
  assumes base: "parse_url b = Some rb" and hier: "\<not> u_opaque rb"
    and dir: "endsWith (u_path rb) ''/''" and n: "file_name n"
  shows "\<exists>r seg. parse_url_base n b = Some r \<and> u_path r = u_path rb @ seg \<and>
           CHR ''/'' \<notin> set seg"
proof -
  let ?f = "after CHR ''#'' n"
  let ?q = "after CHR ''?'' (before CHR ''#'' n)"
  let ?body = "before CHR ''?'' (before CHR ''#'' n)"
  from n have ns: "\<not> has_scheme n" and sl: "CHR ''/'' \<notin> set n"
    by (auto simp: file_name_def Let_def list_all_iff)
  have "set ?body \<subseteq> set n"
    using before_subset[of "CHR ''?''" "before CHR ''#'' n"] before_subset[of "CHR ''#''" n]
    by blast
  with sl have body: "CHR ''/'' \<notin> set ?body" by blast
  then have pre: "\<not> prefix ''/'' ?body" "\<not> prefix ''//'' ?body"
    by (cases ?body; auto)+
  show ?thesis
  proof (cases "?body = []")
    case True
    then have "parse_url_base n b =
        (case ?q of None \<Rightarrow> Some (rb\<lparr>u_fragment := ?f\<rparr>)
         | Some q' \<Rightarrow> Some (rb\<lparr>u_query := ?q, u_fragment := ?f\<rparr>))"
      unfolding parse_url_base_def using base hier ns by (simp add: Let_def)
    then have "\<exists>r. parse_url_base n b = Some r \<and> u_path r = u_path rb @ []"
      by (cases ?q) simp_all
    then show ?thesis by force
  next
    case False
    then have "parse_url_base n b =
        Some (rb\<lparr>u_path := u_path rb @ ?body, u_query := ?q, u_fragment := ?f\<rparr>)"
      unfolding parse_url_base_def using base hier ns pre merge_path_dir[OF dir, of ?body]
      by (simp add: Let_def)
    with body show ?thesis by force
  qed
qed

lemmas url_defs =
  plain_url_def parse_url_def parse_hier_def parse_url_base_def href_def set_pathname_def
  encode_path_def merge_path_def before_def after_def is_scheme_def has_scheme_def special_def
  lowercase_def uppercase_def scheme_marks_def Let_def endsWith_def suffix_to_prefix

subsection \<open>\<open>newBaseUrl\<close> and \<open>newUrlFromBase\<close>\<close>

text \<open>
  Claim C10, as the specification states it: for every valid URL string \<open>u\<close>,
  \<open>newBaseUrl u\<close> is a URL whose pathname ends with \<open>/\<close>, and the names of manifest and
  patch files are resolved below it. A \<open>mailto:\<close> URL is valid and has an opaque path,
  which the \<open>pathname\<close> setter does not change: \<open>newBaseUrl\<close> returns it as it is, and
  its pathname has no trailing slash. And the name of a patch file is the product name
  followed by the two versions: for a product called \<open>re:load\<close> the name starts like a URL
  scheme, so it is taken for an absolute URL, which replaces the feed base URL as a whole.
\<close>

theorem newBaseUrl_opaque_path_keeps_no_slash:
  "newBaseUrl plain_url ''mailto:user@example.com'' = Inr ''mailto:user@example.com'' \<and>
   map_option (url_pathname plain_url) (url_new plain_url ''mailto:user@example.com'')
     = Some ''user@example.com'' \<and>
   \<not> endsWith ''user@example.com'' ''/'' \<and>
   newBaseUrl plain_url ''https://example.com/updates'' = Inr ''https://example.com/updates/'' \<and>
   newUrlFromBase plain_url ''re:load-1.0.0-to-2.0.0.delta'' ''https://example.com/updates/''
     = Inr ''re:load-1.0.0-to-2.0.0.delta'' \<and>
   map_option (url_pathname plain_url)
     (url_new_base plain_url ''re:load-1.0.0-to-2.0.0.delta'' ''https://example.com/updates/'')
     = Some ''load-1.0.0-to-2.0.0.delta'' \<and>
   \<not> prefix ''/updates/'' ''load-1.0.0-to-2.0.0.delta''"
  by (simp add: newBaseUrl_def newUrlFromBase_def url_defs)

text \<open>
  Claim C10, amended: for every valid URL string \<open>u\<close> whose path is not opaque,
  \<open>newBaseUrl u\<close> is a URL whose pathname ends with \<open>/\<close>, and \<open>newBaseUrl\<close> is
  idempotent on it; resolving a file name against it with \<open>newUrlFromBase\<close> keeps the path
  of the base and places the name below it (the pathname of the result is that of the base
  followed by a single segment), rather than replacing the last segment of the base.

  The \<open>URL\<close> class is the platform's. What the two functions rely on is assumed of it, for
  URLs whose path is not opaque, as the URL Standard has it: setting the pathname to itself
  followed by \<open>/\<close> yields that pathname and leaves the path a list of segments (the path
  state of the parser, run by the setter on a serialised path); the \<open>href\<close> of a URL whose
  pathname ends with \<open>/\<close>, parsed again, is the same URL (parsing a serialised URL gives
  the URL back); and a file name resolved against a base whose pathname ends with \<open>/\<close>
  is placed below that path (the relative state: the path of the base, shortened by its
  empty last segment, followed by the segment parsed from the name).
\<close>

theorem newBaseUrl_trailing_slash_idempotent:
  assumes setter: "\<And>s r. url_new api s = Some r \<Longrightarrow> \<not> url_opaque api r \<Longrightarrow>
              \<not> endsWith (url_pathname api r) ''/'' \<Longrightarrow>
              url_pathname api (url_set_pathname api (url_pathname api r @ ''/'') r)
                = url_pathname api r @ ''/'' \<and>
              \<not> url_opaque api (url_set_pathname api (url_pathname api r @ ''/'') r)"
    and reparse: "\<And>s r. url_new api s = Some r \<Longrightarrow> \<not> url_opaque api r \<Longrightarrow>
              endsWith (url_pathname api r) ''/'' \<Longrightarrow>
              url_new api (url_href api r) = Some r"
    and reparse_set: "\<And>s r. url_new api s = Some r \<Longrightarrow> \<not> url_opaque api r \<Longrightarrow>
              \<not> endsWith (url_pathname api r) ''/'' \<Longrightarrow>
              url_new api (url_href api (url_set_pathname api (url_pathname api r @ ''/'') r))
                = Some (url_set_pathname api (url_pathname api r @ ''/'') r)"
    and resolve: "\<And>b rb n. url_new api b = Some rb \<Longrightarrow> \<not> url_opaque api rb \<Longrightarrow>
              endsWith (url_pathname api rb) ''/'' \<Longrightarrow> file_name n \<Longrightarrow>
              \<exists>r seg. url_new_base api n b = Some r \<and>
                url_pathname api r = url_pathname api rb @ seg \<and> CHR ''/'' \<notin> set seg"
    and valid: "url_new api u = Some r0" and hier: "\<not> url_opaque api r0"
  shows "\<exists>b rb. newBaseUrl api u = Inr b \<and>
           url_new api b = Some rb \<and> endsWith (url_pathname api rb) ''/'' \<and>
           newBaseUrl api b = Inr b \<and>
           (\<forall>n. file_name n \<longrightarrow>
              (\<exists>r seg. url_new_base api n b = Some r \<and>
                 newUrlFromBase api n b = Inr (url_href api r) \<and>
                 url_pathname api r = url_pathname api rb @ seg \<and> CHR ''/'' \<notin> set seg))"
proof -
  define rb where "rb = (if \<not> endsWith (url_pathname api r0) ''/''
    then url_set_pathname api (url_pathname api r0 @ ''/'') r0 else r0)"
  have props: "url_new api (url_href api rb) = Some rb \<and> \<not> url_opaque api rb \<and>
               endsWith (url_pathname api rb) ''/''"
  proof (cases "endsWith (url_pathname api r0) ''/''")
    case True
    with reparse[OF valid hier] hier show ?thesis by (simp add: rb_def)
  next
    case False
    from setter[OF valid hier False] reparse_set[OF valid hier False] False
    show ?thesis by (simp add: rb_def endsWith_def)
  qed
  have first: "newBaseUrl api u = Inr (url_href api rb)"
    using valid by (simp add: newBaseUrl_def rb_def)
  have again: "newBaseUrl api (url_href api rb) = Inr (url_href api rb)"
    using props by (simp add: newBaseUrl_def)
  have names: "\<exists>r seg. url_new_base api n (url_href api rb) = Some r \<and>
                 newUrlFromBase api n (url_href api rb) = Inr (url_href api r) \<and>
                 url_pathname api r = url_pathname api rb @ seg \<and> CHR ''/'' \<notin> set seg"
    if "file_name n" for n
  proof -
    from resolve[OF _ _ _ that, of "url_href api rb" rb] props obtain r seg where
      "url_new_base api n (url_href api rb) = Some r"
      "url_pathname api r = url_pathname api rb @ seg" "CHR ''/'' \<notin> set seg"
      by blast
    then show ?thesis by (auto simp: newUrlFromBase_def)
  qed
  from first props again names show ?thesis
    by (intro exI[of _ "url_href api rb"] exI[of _ rb]) simp
qed

theorem newBaseUrl_trailing_slash_idempotent_witness:
  "\<exists>b rb. newBaseUrl plain_url ''https://example.com/updates'' = Inr b \<and>
           url_new plain_url b = Some rb \<and> endsWith (url_pathname plain_url rb) ''/'' \<and>
           newBaseUrl plain_url b = Inr b \<and>
           (\<forall>n. file_name n \<longrightarrow>
              (\<exists>r seg. url_new_base plain_url n b = Some r \<and>
                 newUrlFromBase plain_url n b = Inr (url_href plain_url r) \<and>
                 url_pathname plain_url r = url_pathname plain_url rb @ seg \<and>
                 CHR ''/'' \<notin> set seg))"
proof -
  have setter: "url_pathname plain_url
                  (url_set_pathname plain_url (url_pathname plain_url r @ ''/'') r)
                  = url_pathname plain_url r @ ''/'' \<and>
                \<not> url_opaque plain_url
                  (url_set_pathname plain_url (url_pathname plain_url r @ ''/'') r)"
    if "url_new plain_url s = Some r" "\<not> url_opaque plain_url r"
       "\<not> endsWith (url_pathname plain_url r) ''/''" for s r
  proof -
    from that(1) have "wf_url r" by (simp add: plain_url_def parse_wf)
    from set_pathname_slash(1)[OF this] that(2,3) show ?thesis by (simp add: plain_url_def)
  qed
  have reparse: "url_new plain_url (url_href plain_url r) = Some r"
    if "url_new plain_url s = Some r" "\<not> url_opaque plain_url r"
       "endsWith (url_pathname plain_url r) ''/''" for s r
    using that(1) by (simp add: plain_url_def parse_wf parse_href)
  have reparse_set: "url_new plain_url
          (url_href plain_url (url_set_pathname plain_url (url_pathname plain_url r @ ''/'') r))
          = Some (url_set_pathname plain_url (url_pathname plain_url r @ ''/'') r)"
    if "url_new plain_url s = Some r" "\<not> url_opaque plain_url r"
       "\<not> endsWith (url_pathname plain_url r) ''/''" for s r
  proof -
    from that(1) have wf: "wf_url r" by (simp add: plain_url_def parse_wf)
    from set_pathname_slash[OF wf] that(2,3) show ?thesis
      by (simp add: plain_url_def parse_href)
  qed
  have resolve: "\<exists>r seg. url_new_base plain_url n b = Some r \<and>
                url_pathname plain_url r = url_pathname plain_url rb @ seg \<and>
                CHR ''/'' \<notin> set seg"
    if "url_new plain_url b = Some rb" "\<not> url_opaque plain_url rb"
       "endsWith (url_pathname plain_url rb) ''/''" "file_name n" for b rb n
    using resolve_file_name[of b rb n] that by (simp add: plain_url_def)
  have valid: "url_new plain_url ''https://example.com/updates''
      = Some \<lparr>u_scheme = ''https'', u_authority = Some ''example.com'', u_opaque = False,
              u_path = ''/updates'', u_query = None, u_fragment = None\<rparr>"
    by (simp add: url_defs)
  have hier: "\<not> url_opaque plain_url
      \<lparr>u_scheme = ''https'', u_authority = Some ''example.com'', u_opaque = False,
       u_path = ''/updates'', u_query = None, u_fragment = None\<rparr>"
    by (simp add: plain_url_def)
  show ?thesis
    by (rule newBaseUrl_trailing_slash_idempotent
          [OF setter reparse reparse_set resolve valid hier])
qed

section \<open>Properties of the update client\<close>

subsection \<open>Redirects\<close>

lemma downloadFile_redirect_resolves:
  assumes "net0 u = Response statusCode (Some redirect) content"
    and "statusCode = 301 \<or> statusCode = 302"
    and "downloadFile net0 w redirect filePath d = Some (Resolved, d')"
  shows "downloadFile net0 w u filePath d = Some (Resolved, d')"
  using assms by (subst downloadFile.simps) auto

lemma downloadFile_redirect_rejected_never_settles:
  assumes "net0 u = Response statusCode (Some redirect) content"
    and "statusCode = 301 \<or> statusCode = 302"
    and "downloadFile net0 w redirect filePath d = Some (Rejected e, d')"
  shows "downloadFile net0 w u filePath d = Some (Pending, d')"
  using assms by (subst downloadFile.simps) auto

lemma downloadFile_other_status:
  assumes "net0 u = Response statusCode location content"
    and "statusCode \<noteq> 200" "statusCode \<noteq> 301" "statusCode \<noteq> 302"
  shows "downloadFile net0 w u filePath d = Some (Rejected (NetworkError statusCode), d)"
  using assms by (subst downloadFile.simps) auto

text \<open>
  Claim C8 says that a redirected download completes against the \<open>Location\<close> target and
  that every status other than 200, 301 and 302 rejects with an error. When the target of
  a redirect answers 404, the nested call rejects with the network error, but the
  redirecting call only chains \<open>.then(() => resolve())\<close>: its promise is neither resolved
  nor rejected, ever.
\<close>

theorem redirect_to_failing_target_never_settles:
  "downloadFile redirect_to_missing (\<lambda>p. True) ''https://cdn/a.delta'' ''deltas/a.delta'' Map.empty
     = Some (Rejected (NetworkError 404), Map.empty) \<and>
   downloadFile redirect_to_missing (\<lambda>p. True) ''https://host/a.delta'' ''deltas/a.delta'' Map.empty
     = Some (Pending, Map.empty)"
proof -
  have target: "downloadFile redirect_to_missing (\<lambda>p. True) ''https://cdn/a.delta'' ''deltas/a.delta''
      Map.empty = Some (Rejected (NetworkError 404), Map.empty)"
    by (subst downloadFile.simps) (simp add: redirect_to_missing_def)
  have "downloadFile redirect_to_missing (\<lambda>p. True) ''https://host/a.delta'' ''deltas/a.delta''
      Map.empty = Some (Pending, Map.empty)"
    by (subst downloadFile.simps) (simp add: redirect_to_missing_def target)
  with target show ?thesis by simp
qed

subsection \<open>The checksum of a missing file\<close>

text \<open>
  Claim C9: for a path that does not exist, \<open>computeSHA256\<close> returns \<open>null\<close> and throws
  nothing, \<open>isSHACorrect\<close> is false for every expected checksum (every value but the
  JavaScript \<open>null\<close>, which is no checksum and which \<open>doSmartDownload\<close> never passes), and
  the verification after the download takes the fallback branch: one request of a full
  update, and the cycle completes without an exception.
\<close>

theorem missing_file_checksum:
  assumes "d filePath = None"
  shows "computeSHA256 hash d filePath = Inr None \<and>
         (\<forall>correctSHA. correctSHA \<noteq> Some JNull \<longrightarrow> \<not> isSHACorrect hash d filePath correctSHA) \<and>
         (\<forall>shaVal cs. truthy shaVal \<longrightarrow>
            verifyDownloaded h info filePath shaVal cs d
              = \<lparr>calls = cs @ [DownloadUpdate], disk_after = d, ending = Completed\<rparr>)"
proof -
  have sha: "computeSHA256 hash0 d filePath = Inr None" for hash0
    using assms by (simp add: computeSHA256_def)
  have wrong: "\<not> isSHACorrect hash0 d filePath correctSHA" if "correctSHA \<noteq> Some JNull"
    for hash0 correctSHA
    using that by (simp add: isSHACorrect_def sha)
  have "verifyDownloaded h info filePath shaVal cs d
          = \<lparr>calls = cs @ [DownloadUpdate], disk_after = d, ending = Completed\<rparr>"
    if "truthy shaVal" for shaVal cs
  proof -
    from that have "shaVal \<noteq> Some JNull" by (auto simp: truthy_def)
    then show ?thesis by (simp add: verifyDownloaded_def wrong fallback_def)
  qed
  with sha wrong show ?thesis by blast
qed

theorem missing_file_checksum_witness:
  "computeSHA256 (crypto_sha256 demo_host) attempted_disk ''local/deltas/App-1.0.0-to-2.0.0-delta.exe''
     = Inr None \<and>
   \<not> isSHACorrect (crypto_sha256 demo_host) attempted_disk
       ''local/deltas/App-1.0.0-to-2.0.0-delta.exe'' (Some (JStr ''sha patch'')) \<and>
   verifyDownloaded demo_host demo_info ''local/deltas/App-1.0.0-to-2.0.0-delta.exe''
       (Some (JStr ''sha patch'')) [] attempted_disk
     = \<lparr>calls = [DownloadUpdate], disk_after = attempted_disk, ending = Completed\<rparr>"
proof -
  have missing: "attempted_disk ''local/deltas/App-1.0.0-to-2.0.0-delta.exe'' = None"
    by (simp add: attempted_disk_def)
  have t: "truthy (Some (JStr ''sha patch''))" by (simp add: truthy_def)
  from missing_file_checksum
    [where d = attempted_disk and filePath = "''local/deltas/App-1.0.0-to-2.0.0-delta.exe''"
       and hash = "crypto_sha256 demo_host" and h = demo_host and info = demo_info, OF missing] t
  show ?thesis by auto
qed

subsection \<open>A failed attempt from the running version\<close>

text \<open>
  Claim C2: on \<open>update-available\<close>, if the persisted update-attempt record exists and its
  \<open>appVersion\<close> is the running version, the client requests a full update
  (\<open>downloadUpdate\<close>) and does nothing else: \<open>doSmartDownload\<close> is not called, whatever
  the manifest holds.
\<close>

theorem failed_attempt_forces_full_update:
  assumes "d (updateDetailsJSON u) = Some (File b)"
    and "readJSON h b = Some (JObj props)"
    and "map_of props ''appVersion'' = Some (JStr (app_version h))"
  shows "on_update_available h u info d
           = \<lparr>calls = [DownloadUpdate], disk_after = d, ending = Completed\<rparr>"
  using assms
  by (simp add: on_update_available_def getAutoUpdateDetails_def truthy_def get_prop_def)

theorem failed_attempt_forces_full_update_witness:
  "on_update_available demo_host demo_updater demo_info attempted_disk
     = \<lparr>calls = [DownloadUpdate], disk_after = attempted_disk, ending = Completed\<rparr>"
proof -
  have rec: "attempted_disk (updateDetailsJSON demo_updater) = Some (File ''attempt'')"
    by (simp add: attempted_disk_def demo_updater_def)
  have parsed: "readJSON demo_host ''attempt'' =
      Some (JObj [(''isDelta'', JBool True), (''attemptedVersion'', JStr ''2.0.0''),
          (''appVersion'', JStr ''1.0.0''), (''timestamp'', JNum 1700000000000),
          (''timeHuman'', JStr ''Tue Nov 14 2023'')])"
    by (simp add: demo_host_def demo_attempt_def)
  have same: "map_of [(''isDelta'', JBool True), (''attemptedVersion'', JStr ''2.0.0''),
          (''appVersion'', JStr ''1.0.0''), (''timestamp'', JNum 1700000000000),
          (''timeHuman'', JStr ''Tue Nov 14 2023'')] ''appVersion'' = Some (JStr (app_version demo_host))"
    by (simp add: demo_host_def)
  show ?thesis
    by (rule failed_attempt_forces_full_update
        [where d = attempted_disk and u = demo_updater and h = demo_host, OF rec parsed same])
qed

subsection \<open>A patch with the wrong checksum\<close>

lemma downloadHelpers_calls:
  "downloadHelpers h u d = (cs, d', r) \<Longrightarrow>
     DownloadUpdate \<notin> set cs \<and> (\<forall>a b. DownloadDelta a b \<notin> set cs) \<and>
     (\<forall>a b. EmitUpdateDownloaded a b \<notin> set cs)"
  by (auto simp: downloadHelpers_def split: sum.splits option.splits settled.splits if_splits)

text \<open>
  Claim C3: in a cycle that gets as far as downloading the patch (the manifest is
  fetched, it has an entry with a path and a checksum for the running version, the
  helpers are there on macOS, no valid cached patch exists) and in which the downloaded
  file's hash differs from the recorded checksum, \<open>doSmartDownload\<close> requests a full
  update exactly once, downloads the patch exactly once, emits no \<open>update-downloaded\<close>,
  and leaves the disk as the download left it, the corrupt file included.
\<close>

theorem checksum_mismatch_falls_back_once:
  assumes channel: "truthy (getChannel h)"
    and jurl: "getDeltaJSONUrl h u = Inr deltaJSONUrl"
    and manifest: "fetch h deltaJSONUrl = Fetched 200 (Some deltaJSON)" "truthy (Some deltaJSON)"
    and entry: "get_prop (Some deltaJSON) (app_version h) = Some deltaDetails"
      "truthy (Some deltaDetails)"
    and path: "get_prop (Some deltaDetails) ''path'' = Some (JStr p)"
    and durl: "getDeltaURL h u (Some (JStr p)) = Inr deltaURL"
    and sha: "get_prop (Some deltaDetails) ''sha256'' = shaVal" "truthy shaVal"
    and helpers: "(if process_platform h = ''darwin'' then downloadHelpers h u d
                   else ([], d, Resolved)) = (cs, d1, Resolved)"
    and uncached: "\<not> (d1 (path_join (deltaHolderPath u) p) \<noteq> None \<and>
                      isSHACorrect (crypto_sha256 h) d1 (path_join (deltaHolderPath u) p) shaVal)"
    and downloaded: "downloadFile (net h) (writable h) deltaURL (path_join (deltaHolderPath u) p) d1
                       = Some (Resolved, d2)"
    and mismatch: "\<not> isSHACorrect (crypto_sha256 h) d2 (path_join (deltaHolderPath u) p) shaVal"
  shows "doSmartDownload h u info d =
           \<lparr>calls = [DoSmartDownload (info_version info), Fetch deltaJSONUrl] @ cs @
                    [DownloadDelta deltaURL (path_join (deltaHolderPath u) p), DownloadUpdate],
            disk_after = d2, ending = Completed\<rparr> \<and>
         count_list (calls (doSmartDownload h u info d)) DownloadUpdate = 1 \<and>
         filter (\<lambda>c. case c of DownloadDelta a b \<Rightarrow> True | _ \<Rightarrow> False)
            (calls (doSmartDownload h u info d))
           = [DownloadDelta deltaURL (path_join (deltaHolderPath u) p)] \<and>
         (\<forall>a b. EmitUpdateDownloaded a b \<notin> set (calls (doSmartDownload h u info d)))"
proof -
  have run: "doSmartDownload h u info d =
           \<lparr>calls = [DoSmartDownload (info_version info), Fetch deltaJSONUrl] @ cs @
                    [DownloadDelta deltaURL (path_join (deltaHolderPath u) p), DownloadUpdate],
            disk_after = d2, ending = Completed\<rparr>"
    using assms
    by (simp add: doSmartDownload_def fetchDeltaJSON_def Let_def downloadAndVerify_def
        verifyDownloaded_def fallback_def)
  have cs: "DownloadUpdate \<notin> set cs \<and> (\<forall>a b. DownloadDelta a b \<notin> set cs) \<and>
     (\<forall>a b. EmitUpdateDownloaded a b \<notin> set cs)"
  proof (cases "process_platform h = ''darwin''")
    case True
    with helpers show ?thesis by (auto dest: downloadHelpers_calls)
  next
    case False
    with helpers show ?thesis by simp
  qed
  then have "count_list cs DownloadUpdate = 0" by (simp add: count_list_0_iff)
  moreover from cs have "filter (\<lambda>c. case c of DownloadDelta a b \<Rightarrow> True | _ \<Rightarrow> False) cs = []"
    by (auto simp: filter_empty_conv split: call.splits)
  ultimately show ?thesis using cs by (simp add: run)
qed

theorem checksum_mismatch_falls_back_once_witness:
  "doSmartDownload demo_host demo_updater demo_info Map.empty =
     \<lparr>calls = [DoSmartDownload (info_version demo_info),
               Fetch ''https://example.com/updates/delta-win.json''] @ [] @
              [DownloadDelta ''https://example.com/updates/App-1.0.0-to-2.0.0-delta.exe''
                 (path_join (deltaHolderPath demo_updater) ''App-1.0.0-to-2.0.0-delta.exe''),
               DownloadUpdate],
      disk_after = [''local/deltas/App-1.0.0-to-2.0.0-delta.exe'' \<mapsto> File ''corrupt''],
      ending = Completed\<rparr> \<and>
   count_list (calls (doSmartDownload demo_host demo_updater demo_info Map.empty)) DownloadUpdate = 1 \<and>
   filter (\<lambda>c. case c of DownloadDelta a b \<Rightarrow> True | _ \<Rightarrow> False)
      (calls (doSmartDownload demo_host demo_updater demo_info Map.empty))
     = [DownloadDelta ''https://example.com/updates/App-1.0.0-to-2.0.0-delta.exe''
          (path_join (deltaHolderPath demo_updater) ''App-1.0.0-to-2.0.0-delta.exe'')] \<and>
   (\<forall>a b. EmitUpdateDownloaded a b
      \<notin> set (calls (doSmartDownload demo_host demo_updater demo_info Map.empty)))"
proof -
  let ?entry = "JObj [(''path'', JStr ''App-1.0.0-to-2.0.0-delta.exe''),
                      (''sha256'', JStr ''sha nsis patch c/data/1.0.0 c/data/2.0.0 signed'')]"
  let ?sha = "Some (JStr ''sha nsis patch c/data/1.0.0 c/data/2.0.0 signed'')"
  let ?p = "path_join (deltaHolderPath demo_updater) ''App-1.0.0-to-2.0.0-delta.exe''"
  have channel: "truthy (getChannel demo_host)"
    by (simp add: getChannel_def demo_host_def truthy_def)
  have jurl: "getDeltaJSONUrl demo_host demo_updater = Inr ''https://example.com/updates/delta-win.json''"
    by (simp add: getDeltaJSONUrl_def demo_host_def demo_updater_def js_base_def
        newUrlFromBase_def url_defs)
  have manifest: "fetch demo_host ''https://example.com/updates/delta-win.json'' =
      Fetched 200 (Some (JObj (demo_manifest ''nsis patch c/data/1.0.0 c/data/2.0.0 signed'')))"
    "truthy (Some (JObj (demo_manifest ''nsis patch c/data/1.0.0 c/data/2.0.0 signed'')))"
    by (simp_all add: demo_host_def truthy_def)
  have entry: "get_prop (Some (JObj (demo_manifest ''nsis patch c/data/1.0.0 c/data/2.0.0 signed'')))
      (app_version demo_host) = Some ?entry" "truthy (Some ?entry)"
    by (simp_all add: get_prop_def demo_manifest_def demo_host_def truthy_def)
  have path: "get_prop (Some ?entry) ''path'' = Some (JStr ''App-1.0.0-to-2.0.0-delta.exe'')"
    by (simp add: get_prop_def)
  have durl: "getDeltaURL demo_host demo_updater (Some (JStr ''App-1.0.0-to-2.0.0-delta.exe''))
      = Inr ''https://example.com/updates/App-1.0.0-to-2.0.0-delta.exe''"
    by (simp add: getDeltaURL_def js_String_def demo_host_def demo_updater_def js_base_def
        newUrlFromBase_def url_defs)
  have sha: "get_prop (Some ?entry) ''sha256'' = ?sha" "truthy ?sha"
    by (simp_all add: get_prop_def truthy_def)
  have helpers: "(if process_platform demo_host = ''darwin''
                  then downloadHelpers demo_host demo_updater Map.empty
                  else ([], Map.empty, Resolved)) = ([], Map.empty, Resolved)"
    by (simp add: demo_host_def)
  have uncached: "\<not> (Map.empty ?p \<noteq> None \<and>
                      isSHACorrect (crypto_sha256 demo_host) Map.empty ?p ?sha)"
    by simp
  have downloaded: "downloadFile (net demo_host) (writable demo_host)
        ''https://example.com/updates/App-1.0.0-to-2.0.0-delta.exe'' ?p Map.empty
      = Some (Resolved, [''local/deltas/App-1.0.0-to-2.0.0-delta.exe'' \<mapsto> File ''corrupt''])"
    by (subst downloadFile.simps) (simp add: demo_host_def demo_updater_def path_join_def)
  have mismatch: "\<not> isSHACorrect (crypto_sha256 demo_host)
        [''local/deltas/App-1.0.0-to-2.0.0-delta.exe'' \<mapsto> File ''corrupt''] ?p ?sha"
    by (simp add: isSHACorrect_def computeSHA256_def demo_host_def demo_updater_def path_join_def)
  show ?thesis
    by (rule checksum_mismatch_falls_back_once
        [where h = demo_host and u = demo_updater and d = Map.empty and ?d1.0 = Map.empty
           and ?d2.0 = "[''local/deltas/App-1.0.0-to-2.0.0-delta.exe'' \<mapsto> File ''corrupt'']",
         OF channel jurl manifest entry path durl sha helpers uncached downloaded mismatch])
qed

end
